theory Spec2Isabelle
  imports Main
begin

section \<open>Errors and outcomes\<close>

text \<open>
  A Go \<^verbatim>\<open>error\<close> value. \<open>ErrorsNew\<close> is \<^verbatim>\<open>errors.New(msg)\<close>, \<open>Errorf p e\<close> is
  \<^verbatim>\<open>fmt.Errorf(p + "%w", e)\<close> (an error that wraps \<open>e\<close>), \<open>Foreign\<close> is an error
  produced by a collaborator outside this file, and \<open>RetriesExhausted\<close> is the error
  the bounded retry reports after its last attempt. A nil error is \<open>None\<close> of
  \<open>error option\<close>.
\<close>

datatype error =
    ErrorsNew string
  | Errorf string error
  | RetriesExhausted error
  | Foreign string

text \<open>\<open>wraps e d\<close>: \<open>d\<close> is on the unwrap chain of \<open>e\<close> (what \<^verbatim>\<open>errors.Is\<close> follows).\<close>

fun wraps :: "error \<Rightarrow> error \<Rightarrow> bool" where
  "wraps (Errorf p e) d = (Errorf p e = d \<or> wraps e d)"
| "wraps (RetriesExhausted e) d = (RetriesExhausted e = d \<or> wraps e d)"
| "wraps e d = (e = d)"

text \<open>A call either returns or panics (a nil pointer dereference).\<close>

datatype 'a outcome = Return 'a | Panic

section \<open>Paths: the functions of Go's path/filepath used here (Unix)\<close>

text \<open>
  \<^verbatim>\<open>filepath.Clean\<close>, \<^verbatim>\<open>Dir\<close>, \<^verbatim>\<open>Join\<close> and \<^verbatim>\<open>Abs\<close> belong to the Go standard
  library. They are modelled on path elements, following the rules the library
  documents: separators are collapsed, \<^verbatim>\<open>.\<close> elements are dropped, an inner \<^verbatim>\<open>..\<close>
  removes the element before it, a \<^verbatim>\<open>..\<close> at the root is dropped, and the empty result
  is \<^verbatim>\<open>.\<close>.
\<close>

fun splitSep :: "string \<Rightarrow> string list" where
  "splitSep [] = [[]]"
| "splitSep (c # cs) =
     (if c = CHR ''/'' then [] # splitSep cs
      else (case splitSep cs of [] \<Rightarrow> [[c]] | w # ws \<Rightarrow> (c # w) # ws))"

fun joinSep :: "string list \<Rightarrow> string" where
  "joinSep [] = []"
| "joinSep [e] = e"
| "joinSep (e # es) = e @ ''/'' @ joinSep es"

fun cleanElems :: "bool \<Rightarrow> string list \<Rightarrow> string list \<Rightarrow> string list" where
  "cleanElems rooted acc [] = rev acc"
| "cleanElems rooted acc (e # es) =
     (if e = [] \<or> e = ''.'' then cleanElems rooted acc es
      else if e = ''..'' then
        (case acc of
           [] \<Rightarrow> if rooted then cleanElems rooted [] es else cleanElems rooted [''..''] es
         | a # as \<Rightarrow>
             if a = ''..'' then cleanElems rooted (''..'' # acc) es
             else cleanElems rooted as es)
      else cleanElems rooted (e # acc) es)"

definition filepath_IsAbs :: "string \<Rightarrow> bool" where
  "filepath_IsAbs path = (case path of [] \<Rightarrow> False | c # _ \<Rightarrow> c = CHR ''/'')"

definition filepath_Clean :: "string \<Rightarrow> string" where
  "filepath_Clean path =
     (if path = [] then ''.''
      else let rooted = filepath_IsAbs path;
               body = joinSep (cleanElems rooted [] (splitSep path))
           in if rooted then ''/'' @ body
              else if body = [] then ''.'' else body)"

definition filepath_Dir :: "string \<Rightarrow> string" where
  "filepath_Dir path = filepath_Clean (rev (dropWhile (\<lambda>c. c \<noteq> CHR ''/'') (rev path)))"

fun filepath_Join :: "string list \<Rightarrow> string" where
  "filepath_Join [] = []"
| "filepath_Join (e # es) =
     (if e \<noteq> [] then filepath_Clean (joinSep (e # es)) else filepath_Join es)"

text \<open>\<^verbatim>\<open>filepath.Abs\<close>; the first argument is what \<^verbatim>\<open>os.Getwd()\<close> returns.\<close>

definition filepath_Abs :: "error + string \<Rightarrow> string \<Rightarrow> string \<times> error option" where
  "filepath_Abs getwd path =
     (if filepath_IsAbs path then (filepath_Clean path, None)
      else (case getwd of
              Inl e \<Rightarrow> ([], Some e)
            | Inr wd \<Rightarrow> (filepath_Join [wd, path], None)))"

section \<open>Data model\<close>

text \<open>
  \<^verbatim>\<open>imgsrc.DeploymentImage\<close>. A \<^verbatim>\<open>*DeploymentImage\<close> is a \<open>DeploymentImage option\<close>,
  \<open>None\<close> the nil pointer.
\<close>

record DeploymentImage =
  img_ID :: string
  img_Tag :: string
  img_Size :: int

text \<open>
  Go maps are references: a \<^verbatim>\<open>map[string]string\<close> is \<open>None\<close> (the nil map) or the
  address of a map object in the heap, so that two holders of one map see each other's
  writes.
\<close>

type_synonym addr = nat
type_synonym strmap = "string \<rightharpoonup> string"
type_synonym Settings = "(string \<times> string) list"
type_synonym Definition = "(string \<times> string) list"

text \<open>\<^verbatim>\<open>app.Build\<close> and \<^verbatim>\<open>app.Config\<close>, with the fields this file reads.\<close>

record Build =
  Build_Builder :: string
  Build_Args :: "addr option"
  Build_Buildpacks :: "string list"
  Build_Builtin :: string
  Build_Settings :: Settings
  Build_Image :: string
  Build_Dockerfile :: string
  Build_DockerBuildTarget :: string

record Config =
  Config_Path :: string
  Config_Build :: "Build option"
  Config_Definition :: Definition

text \<open>\<^verbatim>\<open>new(app.Build)\<close>: every field at its zero value.\<close>

definition new_Build :: Build where
  "new_Build =
     \<lparr>Build_Builder = [], Build_Args = None, Build_Buildpacks = [], Build_Builtin = [],
      Build_Settings = [], Build_Image = [], Build_Dockerfile = [],
      Build_DockerBuildTarget = []\<rparr>"

text \<open>
  Modelled from the spec: the methods \<^verbatim>\<open>Dockerfile()\<close> and \<^verbatim>\<open>DockerBuildTarget()\<close> of
  \<^verbatim>\<open>app.Config\<close> are not in this file. They give the configuration-declared Dockerfile
  path and build target, the empty string when the configuration declares none.
\<close>

definition Dockerfile :: "Config \<Rightarrow> string" where
  "Dockerfile cfg = (case Config_Build cfg of None \<Rightarrow> [] | Some b \<Rightarrow> Build_Dockerfile b)"

definition DockerBuildTarget :: "Config \<Rightarrow> string" where
  "DockerBuildTarget cfg =
     (case Config_Build cfg of None \<Rightarrow> [] | Some b \<Rightarrow> Build_DockerBuildTarget b)"

text \<open>
  What the \<^verbatim>\<open>context.Context\<close> carries: the command-line flags, the application name,
  the working directory and the local application configuration (nil when there is
  none).
\<close>

record ctx =
  flag_nix :: bool
  flag_remote_only :: bool
  flag_local_only :: bool
  flag_build_only :: bool
  flag_detach :: bool
  flag_no_cache :: bool
  flag_image :: string
  flag_image_label :: string
  flag_dockerfile :: string
  flag_build_target :: string
  flag_strategy :: string
  flag_build_arg :: "string list"
  flag_env :: "string list"
  NameFromContext :: string
  WorkingDirectory :: string
  ConfigFromContext :: "Config option"

text \<open>The arguments of \<^verbatim>\<open>imgsrc.NewResolver\<close> that this file computes.\<close>

record Resolver =
  res_allowLocal :: bool
  res_allowRemote :: bool
  res_appName :: string

record RefOptions =
  ref_AppName :: string
  ref_WorkingDir :: string
  ref_Publish :: bool
  ref_ImageRef :: string
  ref_ImageLabel :: string

record ImageOptions =
  opts_AppName :: string
  opts_WorkingDir :: string
  opts_Publish :: bool
  opts_ImageLabel :: string
  opts_NoCache :: bool
  opts_BuildArgs :: "addr option"
  opts_BuiltIn :: string
  opts_BuiltInSettings :: Settings
  opts_Builder :: string
  opts_Buildpacks :: "string list"
  opts_DockerfilePath :: string
  opts_Target :: string

record BuilderApp =
  app_Name :: string
  app_OrganizationSlug :: string

type_synonym machine = nat

record ConnectParams =
  cp_Ports :: "string list"
  cp_App :: BuilderApp
  cp_RemoteHost :: string

record Release =
  rel_ID :: string
  rel_Version :: int
  rel_EvaluationID :: string
  rel_DeploymentStrategy :: string

record ReleaseCommand =
  rc_ID :: string
  rc_Command :: string

record DeployImageInput =
  in_AppID :: string
  in_Image :: string
  in_Strategy :: "string option"
  in_Definition :: "Definition option"

section \<open>Collaborators, state and the trace\<close>

text \<open>
  Every call that leaves this file is recorded as an event, in the order the calls are
  made. Progress text written through the text-block renderer is not recorded.
\<close>

datatype event =
    EvResolveReference Resolver RefOptions
  | EvBuildImage Resolver ImageOptions
  | EvRemoteBuilderMachine string
  | EvEstablish
  | EvConnectToTunnel string
  | EvProxyConnect ConnectParams
  | EvCancelProxy
  | EvSleep nat
  | EvDialTimeout string string nat
  | EvFprintf string
  | EvPrintln string
  | EvPrintlnError error
  | EvExecRun "string list"
  | EvRunSSHCommand BuilderApp string string
  | EvGetConfig string
  | EvDeployImage DeployImageInput
  | EvWatchReleaseCommand string
  | EvGetAppRelease string string
  | EvWatchDeployment string

text \<open>
  The collaborators are parameters: what each one answers is a field of \<open>world\<close>.
  A Go map returned by a collaborator is the list of its entries in the order a
  \<^verbatim>\<open>range\<close> loop visits them. \<open>DialTimeout n\<close> is the answer to the \<open>n\<close>-th dial
  made so far (counted from 0).
\<close>

record world =
  ParseKVStringsToMap :: "string list \<Rightarrow> error + (string \<times> string) list"
  Getwd :: "error + string"
  ResolveReference :: "Resolver \<Rightarrow> RefOptions \<Rightarrow> DeploymentImage option \<times> error option"
  BuildImage ::
    "Resolver \<Rightarrow> ImageOptions \<Rightarrow> (addr \<rightharpoonup> strmap) \<Rightarrow> DeploymentImage option \<times> error option"
  RemoteBuilderMachine :: "string \<Rightarrow> error + (machine \<times> BuilderApp)"
  Establish :: "error option"
  ConnectToTunnel :: "string \<Rightarrow> error option"
  IpAddress :: "machine \<Rightarrow> string"
  DialTimeout :: "nat \<Rightarrow> error option"
  ExecRun :: "string list \<Rightarrow> error option"
  NewDeploymentTag :: "string \<Rightarrow> string \<Rightarrow> string"
  GetAPIToken :: string
  RunSSHCommand :: "BuilderApp \<Rightarrow> string \<Rightarrow> string \<Rightarrow> string \<times> error option"
  GetConfig :: "string \<Rightarrow> error + Definition"
  SetEnvVariables :: "Config \<Rightarrow> (string \<times> string) list \<Rightarrow> Config"
  DeployImage :: "DeployImageInput \<Rightarrow> error + Release \<times> ReleaseCommand option"
  WatchReleaseCommand :: "string \<Rightarrow> error option"
  GetAppRelease :: "string \<Rightarrow> string \<Rightarrow> error + Release"
  WatchDeployment :: "string \<Rightarrow> error option"

record state =
  trace :: "event list"
  dials :: nat
  heap :: "addr \<rightharpoonup> strmap"
  next_addr :: addr

definition emit :: "event \<Rightarrow> state \<Rightarrow> state" where
  "emit e s = s\<lparr>trace := trace s @ [e]\<rparr>"

text \<open>\<^verbatim>\<open>make(map[string]string)\<close>: a new, empty map object at an unused address.\<close>

definition make_map :: "state \<Rightarrow> addr \<times> state" where
  "make_map s =
     (next_addr s, s\<lparr>heap := (heap s)(next_addr s \<mapsto> Map.empty), next_addr := Suc (next_addr s)\<rparr>)"

text \<open>\<^verbatim>\<open>m[k] = v\<close> on the map object at \<open>a\<close>.\<close>

definition map_store :: "addr \<Rightarrow> string \<Rightarrow> string \<Rightarrow> state \<Rightarrow> state" where
  "map_store a k v s =
     (case heap s a of
        None \<Rightarrow> s
      | Some m \<Rightarrow> s\<lparr>heap := (heap s)(a \<mapsto> m(k \<mapsto> v))\<rparr>)"

section \<open>Image acquisition from a reference or from source\<close>

definition fetchImageRef :: "ctx \<Rightarrow> Config option \<Rightarrow> string \<times> error option" where
  "fetchImageRef c cfg =
     (if flag_image c \<noteq> [] then (flag_image c, None)
      else (case cfg of
              None \<Rightarrow> ([], None)
            | Some cf \<Rightarrow>
                (case Config_Build cf of
                   None \<Rightarrow> ([], None)
                 | Some b \<Rightarrow> (Build_Image b, None))))"

text \<open>The loop \<^verbatim>\<open>for k, v := range cliBuildArgs { args[k] = v }\<close>.\<close>

fun range_store :: "addr \<Rightarrow> (string \<times> string) list \<Rightarrow> state \<Rightarrow> state" where
  "range_store a [] s = s"
| "range_store a ((k, v) # kvs) s = range_store a kvs (map_store a k v s)"

definition mergeBuildArgs ::
  "world \<Rightarrow> ctx \<Rightarrow> addr option \<Rightarrow> state \<Rightarrow> (addr option \<times> error option) \<times> state" where
  "mergeBuildArgs w c args s =
     (case (case args of None \<Rightarrow> make_map s | Some a \<Rightarrow> (a, s)) of
        (a, s1) \<Rightarrow>
          (case ParseKVStringsToMap w (flag_build_arg c) of
             Inl e \<Rightarrow> ((None, Some (Errorf ''invalid build args: '' e)), s1)
           | Inr cliBuildArgs \<Rightarrow> ((Some a, None), range_store a cliBuildArgs s1)))"

text \<open>
  The deferred function of \<^verbatim>\<open>resolveDockerfilePath\<close> runs on the way out: a non-empty
  path is made absolute. No error is set before it runs.
\<close>

definition resolveDockerfilePath :: "world \<Rightarrow> ctx \<Rightarrow> Config \<Rightarrow> string \<times> error option" where
  "resolveDockerfilePath w c appConfig =
     (let path =
            (if Dockerfile appConfig \<noteq> []
             then filepath_Join [filepath_Dir (Config_Path appConfig), Dockerfile appConfig]
             else flag_dockerfile c)
      in if path \<noteq> [] then filepath_Abs (Getwd w) path else (path, None))"

text \<open>
  The part of \<^verbatim>\<open>determineImage\<close> that assembles the options of a source build
  (lines 251 to 272), given the merged build arguments and the resolved Dockerfile path.
\<close>

definition sourceBuildOptions :: "ctx \<Rightarrow> Config \<Rightarrow> Build \<Rightarrow> addr option \<Rightarrow> string \<Rightarrow> ImageOptions" where
  "sourceBuildOptions c appConfig build buildArgs dockerfilePath =
     (let opts =
            \<lparr>opts_AppName = NameFromContext c,
             opts_WorkingDir = WorkingDirectory c,
             opts_Publish = (\<not> flag_build_only c),
             opts_ImageLabel = flag_image_label c,
             opts_NoCache = flag_no_cache c,
             opts_BuildArgs = buildArgs,
             opts_BuiltIn = Build_Builtin build,
             opts_BuiltInSettings = Build_Settings build,
             opts_Builder = Build_Builder build,
             opts_Buildpacks = Build_Buildpacks build,
             opts_DockerfilePath = dockerfilePath,
             opts_Target = []\<rparr>
      in if DockerBuildTarget appConfig \<noteq> [] then opts\<lparr>opts_Target := DockerBuildTarget appConfig\<rparr>
         else if flag_build_target c \<noteq> [] then opts\<lparr>opts_Target := flag_build_target c\<rparr>
         else opts)"

section \<open>The remote tunnel build\<close>

definition waitForLocalPort :: "world \<Rightarrow> string \<Rightarrow> state \<Rightarrow> error option \<times> state" where
  "waitForLocalPort w port s =
     (DialTimeout w (dials s),
      (emit (EvDialTimeout ''tcp'' (''localhost:'' @ port) 1) s)\<lparr>dials := Suc (dials s)\<rparr>)"

text \<open>
  Modelled from the spec: \<^verbatim>\<open>retry.Retry\<close> (package \<^verbatim>\<open>pkg/retry\<close>) is not in this file.
  The spec: ``given a connect-attempt function and a maximum attempt count, invoke the
  function up to N times [...] Returns success on first success; returns a
  RetriesExhausted error, wrapping the last underlying error, if all attempts fail.''
  \<open>Retry_loop\<close> carries the error of the last attempt made so far.
\<close>

fun Retry_loop ::
  "(state \<Rightarrow> error option \<times> state) \<Rightarrow> nat \<Rightarrow> error option \<Rightarrow> state \<Rightarrow> error option \<times> state" where
  "Retry_loop fn 0 lastErr s = (map_option RetriesExhausted lastErr, s)"
| "Retry_loop fn (Suc n) lastErr s =
     (case fn s of
        (None, s1) \<Rightarrow> (None, s1)
      | (Some e, s1) \<Rightarrow> Retry_loop fn n (Some e) s1)"

definition Retry :: "(state \<Rightarrow> error option \<times> state) \<Rightarrow> nat \<Rightarrow> state \<Rightarrow> error option \<times> state" where
  "Retry fn attempts s = Retry_loop fn attempts None s"

text \<open>The closure \<^verbatim>\<open>fn\<close> of \<^verbatim>\<open>NixSourceBuild\<close> (lines 405 to 408).\<close>

definition probe_fn :: "world \<Rightarrow> state \<Rightarrow> error option \<times> state" where
  "probe_fn w s = waitForLocalPort w ''8873'' (emit (EvSleep 1) s)"

text \<open>\<^verbatim>\<open>defer d()\<close> before a body: \<open>d\<close> runs after the body, whatever the body returns.\<close>

definition with_defer :: "(state \<Rightarrow> state) \<Rightarrow> (state \<Rightarrow> 'a \<times> state) \<Rightarrow> state \<Rightarrow> 'a \<times> state" where
  "with_defer d body s = (case body s of (r, s1) \<Rightarrow> (r, d s1))"

definition rsync_command :: "string \<Rightarrow> string list" where
  "rsync_command workingDirectory =
     [''/usr/bin/rsync'', ''-Dtlcrv'', ''--exclude-from=.dockerignore'', workingDirectory,
      ''rsync://root@localhost:8873/data'']"

text \<open>Lines 416 to 444: the synchronization and the remote build.\<close>

definition sync_and_build ::
  "world \<Rightarrow> string \<Rightarrow> string \<Rightarrow> machine \<Rightarrow> BuilderApp \<Rightarrow> state
     \<Rightarrow> (DeploymentImage option \<times> error option) \<times> state" where
  "sync_and_build w appName workingDirectory builderMachine builderApp s =
     (let s1 = emit (EvExecRun (rsync_command workingDirectory)) s;
          s2 = (case ExecRun w (rsync_command workingDirectory) of
                  Some e \<Rightarrow> emit (EvPrintlnError (Errorf ''code rsync failed: '' e)) s1
                | None \<Rightarrow> s1);
          s3 = emit (EvPrintln ''Running Nix build...'') s2;
          imageTag = NewDeploymentTag w appName [];
          builderAddress = ''['' @ IpAddress w builderMachine @ '']'';
          command = ''/data/source/'' @ appName @ ''/bin/build.sh'' @ '' '' @ GetAPIToken w
                      @ '' '' @ imageTag;
          s4 = emit (EvRunSSHCommand builderApp builderAddress command) s3
      in case RunSSHCommand w builderApp builderAddress command of
           (resp, Some e) \<Rightarrow> ((None, Some (Errorf [] e)), s4)
         | (resp, None) \<Rightarrow>
             ((Some \<lparr>img_ID = imageTag, img_Tag = imageTag, img_Size = 10\<rparr>, None),
              emit (EvPrintln resp) s4))"

text \<open>Lines 400 to 444: what runs between \<^verbatim>\<open>defer cancelProxy()\<close> and the return.\<close>

definition proxied_build ::
  "world \<Rightarrow> string \<Rightarrow> string \<Rightarrow> machine \<Rightarrow> BuilderApp \<Rightarrow> state
     \<Rightarrow> (DeploymentImage option \<times> error option) \<times> state" where
  "proxied_build w appName workingDirectory builderMachine builderApp s =
     (let params = \<lparr>cp_Ports = [''8873'', ''873''], cp_App = builderApp,
                     cp_RemoteHost = IpAddress w builderMachine\<rparr>
      in case Retry (probe_fn w) 10 (emit (EvProxyConnect params) s) of
           (Some e, s1) \<Rightarrow>
             ((None, Some (Errorf ''rsync proxy failed to connect after 10 seconds: '' e)), s1)
         | (None, s1) \<Rightarrow>
             sync_and_build w appName workingDirectory builderMachine builderApp
               (emit (EvFprintf (''Proxy connected. Syncing source code to the remote builder ''
                                   @ app_Name builderApp @ [CHR 0x0A])) s1))"

definition NixSourceBuild ::
  "world \<Rightarrow> ctx \<Rightarrow> string \<Rightarrow> state \<Rightarrow> (DeploymentImage option \<times> error option) \<times> state" where
  "NixSourceBuild w c workingDirectory s =
     (let appName = NameFromContext c;
          s1 = emit (EvRemoteBuilderMachine appName) s
      in case RemoteBuilderMachine w appName of
           Inl e \<Rightarrow> ((None, Some e), s1)
         | Inr (builderMachine, builderApp) \<Rightarrow>
             (let s2 = emit EvEstablish s1
              in case Establish w of
                   Some e \<Rightarrow> ((None, Some e), s2)
                 | None \<Rightarrow>
                     (let s3 = emit (EvConnectToTunnel (app_OrganizationSlug builderApp)) s2
                      in case ConnectToTunnel w (app_OrganizationSlug builderApp) of
                           Some e \<Rightarrow> ((None, Some e), s3)
                         | None \<Rightarrow>
                             with_defer (emit EvCancelProxy)
                               (proxied_build w appName workingDirectory builderMachine builderApp)
                               s3)))"

section \<open>The Image Acquisition Resolver\<close>

definition determineImage ::
  "world \<Rightarrow> ctx \<Rightarrow> Config option \<Rightarrow> state
     \<Rightarrow> (DeploymentImage option \<times> error option) outcome \<times> state" where
  "determineImage w c appConfig s =
     (if flag_nix c then
        (case NixSourceBuild w c (WorkingDirectory c) s of
           ((img, Some e), s1) \<Rightarrow> (Return (None, Some e), s1)
         | ((img, None), s1) \<Rightarrow> (Return (img, None), s1))
      else
        (let resolver = \<lparr>res_allowLocal = (\<not> flag_remote_only c),
                          res_allowRemote = (\<not> flag_local_only c),
                          res_appName = NameFromContext c\<rparr>
         in case fetchImageRef c appConfig of
              (imageRef, Some e) \<Rightarrow> (Return (None, Some e), s)
            | (imageRef, None) \<Rightarrow>
                if imageRef \<noteq> [] then
                  (let opts = \<lparr>ref_AppName = NameFromContext c,
                                ref_WorkingDir = WorkingDirectory c,
                                ref_Publish = (\<not> flag_build_only c),
                                ref_ImageRef = imageRef,
                                ref_ImageLabel = flag_image_label c\<rparr>
                   in (Return (ResolveReference w resolver opts),
                       emit (EvResolveReference resolver opts) s))
                else
                  (case appConfig of
                     None \<Rightarrow> (Panic, s)
                   | Some cfg \<Rightarrow>
                       (let build = (case Config_Build cfg of None \<Rightarrow> new_Build | Some b \<Rightarrow> b)
                        in case mergeBuildArgs w c (Build_Args build) s of
                             ((buildArgs, Some e), s1) \<Rightarrow> (Return (None, Some e), s1)
                           | ((buildArgs, None), s1) \<Rightarrow>
                               (case resolveDockerfilePath w c cfg of
                                  (path, Some e) \<Rightarrow> (Return (None, Some e), s1)
                                | (path, None) \<Rightarrow>
                                    (let opts = sourceBuildOptions c cfg build buildArgs path
                                     in case BuildImage w resolver opts (heap s1) of
                                          (img, err) \<Rightarrow>
                                            (Return
                                               (img,
                                                if err = None \<and> img = None
                                                then Some (ErrorsNew ''no image specified'')
                                                else err),
                                             emit (EvBuildImage resolver opts) s1)))))))"

section \<open>The Release Lifecycle Controller\<close>

text \<open>
  A collaborator of the controller that reports no error returns its value: the source
  uses \<^verbatim>\<open>apiConfig\<close> and \<^verbatim>\<open>release\<close> untested once the error is nil. Only the release
  command is optional, and the source tests it.
\<close>

definition determineAppConfig ::
  "world \<Rightarrow> ctx \<Rightarrow> state \<Rightarrow> (Config option \<times> error option) \<times> state" where
  "determineAppConfig w c s =
     (case (case ConfigFromContext c of
              Some cfg \<Rightarrow> (Inr cfg, s)
            | None \<Rightarrow>
                (case GetConfig w (NameFromContext c) of
                   Inl e \<Rightarrow>
                     (Inl (Errorf ''failed fetching existing app config: '' e),
                      emit (EvGetConfig (NameFromContext c)) s)
                 | Inr d \<Rightarrow>
                     (Inr \<lparr>Config_Path = [], Config_Build = None, Config_Definition = d\<rparr>,
                      emit (EvGetConfig (NameFromContext c)) s))) of
        (Inl e, s1) \<Rightarrow> ((None, Some e), s1)
      | (Inr cfg, s1) \<Rightarrow>
          if length (flag_env c) > 0 then
            (case ParseKVStringsToMap w (flag_env c) of
               Inl e \<Rightarrow> ((Some cfg, Some (Errorf ''failed parsing environment: '' e)), s1)
             | Inr parsedEnv \<Rightarrow> ((Some (SetEnvVariables w cfg parsedEnv), None), s1))
          else ((Some cfg, None), s1))"

text \<open>\<^verbatim>\<open>strings.ToUpper\<close> on ASCII text.\<close>

definition ToUpper :: "string \<Rightarrow> string" where
  "ToUpper str =
     map (\<lambda>ch. let n = (of_char ch :: nat)
                in if 97 \<le> n \<and> n \<le> 122 then char_of (n - 32) else ch) str"

definition createRelease ::
  "world \<Rightarrow> ctx \<Rightarrow> Config option \<Rightarrow> DeploymentImage option \<Rightarrow> state
     \<Rightarrow> (error + Release \<times> ReleaseCommand option) outcome \<times> state" where
  "createRelease w c appConfig img s =
     (case img of
        None \<Rightarrow> (Panic, s)
      | Some i \<Rightarrow>
          (case appConfig of
             None \<Rightarrow> (Panic, s)
           | Some cfg \<Rightarrow>
               (let input = \<lparr>in_AppID = NameFromContext c,
                              in_Image = img_Tag i,
                              in_Strategy =
                                (if flag_strategy c \<noteq> [] then Some (ToUpper (flag_strategy c))
                                 else None),
                              in_Definition =
                                (if length (Config_Definition cfg) > 0
                                 then Some (Config_Definition cfg) else None)\<rparr>
                in (Return (DeployImage w input), emit (EvDeployImage input) s))))"

text \<open>Lines 149 to 158 of \<^verbatim>\<open>run\<close>: the dispatch on the deployment strategy.\<close>

definition dispatch :: "world \<Rightarrow> Release \<Rightarrow> state \<Rightarrow> error option outcome \<times> state" where
  "dispatch w release s =
     (if rel_DeploymentStrategy release = ''IMMEDIATE'' then (Return None, s)
      else (Return (WatchDeployment w (rel_EvaluationID release)),
            emit (EvWatchDeployment (rel_EvaluationID release)) s))"

text \<open>
  Lines 103 to 147 of \<^verbatim>\<open>run\<close>: everything before the dispatch. \<open>Inl r\<close> is a run that
  ended there with result \<open>r\<close>; \<open>Inr release\<close> is a run that goes on to the dispatch
  with that release (the one fetched again after a release command).
\<close>

definition before_dispatch ::
  "world \<Rightarrow> ctx \<Rightarrow> state \<Rightarrow> (error option outcome + Release) \<times> state" where
  "before_dispatch w c s =
     (case determineAppConfig w c s of
        ((appConfig, Some e), s1) \<Rightarrow> (Inl (Return (Some e)), s1)
      | ((appConfig, None), s1) \<Rightarrow>
          (case determineImage w c appConfig s1 of
             (Panic, s2) \<Rightarrow> (Inl Panic, s2)
           | (Return (img, Some e), s2) \<Rightarrow>
               (Inl (Return (Some (Errorf ''failed to fetch an image or build from source: '' e))),
                s2)
           | (Return (img, None), s2) \<Rightarrow>
               if flag_build_only c then (Inl (Return None), s2)
               else
                 (case createRelease w c appConfig img s2 of
                    (Panic, s3) \<Rightarrow> (Inl Panic, s3)
                  | (Return (Inl e), s3) \<Rightarrow> (Inl (Return (Some e)), s3)
                  | (Return (Inr (release, releaseCommand)), s3) \<Rightarrow>
                      if flag_detach c then (Inl (Return None), s3)
                      else
                        (case releaseCommand of
                           None \<Rightarrow> (Inr release, s3)
                         | Some rc \<Rightarrow>
                             (let s4 = emit (EvWatchReleaseCommand (rc_ID rc)) s3
                              in case WatchReleaseCommand w (rc_ID rc) of
                                   Some e \<Rightarrow> (Inl (Return (Some e)), s4)
                                 | None \<Rightarrow>
                                     (let s5 = emit (EvGetAppRelease (NameFromContext c)
                                                       (rel_ID release)) s4
                                      in case GetAppRelease w (NameFromContext c)
                                                (rel_ID release) of
                                           Inl e \<Rightarrow> (Inl (Return (Some e)), s5)
                                         | Inr release2 \<Rightarrow> (Inr release2, s5)))))))"

definition run :: "world \<Rightarrow> ctx \<Rightarrow> state \<Rightarrow> error option outcome \<times> state" where
  "run w c s =
     (case before_dispatch w c s of
        (Inl r, s1) \<Rightarrow> (r, s1)
      | (Inr release, s1) \<Rightarrow> dispatch w release s1)"

section \<open>Reading a trace\<close>

text \<open>The events a call added to the trace.\<close>

definition new_events :: "state \<Rightarrow> state \<Rightarrow> event list" where
  "new_events s s1 = drop (length (trace s)) (trace s1)"

fun is_ProxyConnect :: "event \<Rightarrow> bool" where
  "is_ProxyConnect (EvProxyConnect p) = True"
| "is_ProxyConnect e = False"

fun is_DialTimeout :: "event \<Rightarrow> bool" where
  "is_DialTimeout (EvDialTimeout n a t) = True"
| "is_DialTimeout e = False"

fun is_DeployImage :: "event \<Rightarrow> bool" where
  "is_DeployImage (EvDeployImage i) = True"
| "is_DeployImage e = False"

fun is_WatchDeployment :: "event \<Rightarrow> bool" where
  "is_WatchDeployment (EvWatchDeployment i) = True"
| "is_WatchDeployment e = False"

text \<open>The waits of the controller: the release command, the re-fetch, the deployment.\<close>

fun is_wait :: "event \<Rightarrow> bool" where
  "is_wait (EvWatchReleaseCommand i) = True"
| "is_wait (EvGetAppRelease a i) = True"
| "is_wait (EvWatchDeployment i) = True"
| "is_wait e = False"

text \<open>
  The stage of the controller an event belongs to: 0 the configuration, 1 the image
  acquisition, 2 the release submission, 3 the wait for the release command and the
  re-fetch of the release, 4 the deployment watch.
\<close>

fun stage :: "event \<Rightarrow> nat" where
  "stage (EvGetConfig a) = 0"
| "stage (EvDeployImage i) = 2"
| "stage (EvWatchReleaseCommand i) = 3"
| "stage (EvGetAppRelease a i) = 3"
| "stage (EvWatchDeployment i) = 4"
| "stage e = 1"

text \<open>The build targets handed to the Docker build collaborator, in order.\<close>

fun build_targets :: "event list \<Rightarrow> string list" where
  "build_targets [] = []"
| "build_targets (EvBuildImage r opts # es) = opts_Target opts # build_targets es"
| "build_targets (e # es) = build_targets es"

text \<open>A nil map reads as the empty map.\<close>

definition map_contents :: "state \<Rightarrow> addr option \<Rightarrow> strmap option" where
  "map_contents s args = (case args of None \<Rightarrow> Some Map.empty | Some a \<Rightarrow> heap s a)"

section \<open>Concrete inputs\<close>

definition image0 :: DeploymentImage where
  "image0 = \<lparr>img_ID = ''sha256:01'', img_Tag = ''registry.fly.io/shop:deployment-1'', img_Size = 2048\<rparr>"

definition builder0 :: BuilderApp where
  "builder0 = \<lparr>app_Name = ''fly-builder-red'', app_OrganizationSlug = ''personal''\<rparr>"

definition release0 :: Release where
  "release0 = \<lparr>rel_ID = ''rel1'', rel_Version = 7, rel_EvaluationID = ''eval1'',
               rel_DeploymentStrategy = ''CANARY''\<rparr>"

definition release_immediate :: Release where
  "release_immediate = release0\<lparr>rel_DeploymentStrategy := ''IMMEDIATE''\<rparr>"

definition command0 :: ReleaseCommand where
  "command0 = \<lparr>rc_ID = ''cmd1'', rc_Command = ''bin/migrate''\<rparr>"

text \<open>
  A world where everything succeeds: the forwarded port accepts the third dial, the
  command line gives the build arguments B=3 and C=4.
\<close>

definition world0 :: world where
  "world0 =
     \<lparr>ParseKVStringsToMap = (\<lambda>args. Inr [(''B'', ''3''), (''C'', ''4'')]),
      Getwd = Inr ''/home/dev/shop'',
      ResolveReference = (\<lambda>r opts. (Some image0, None)),
      BuildImage = (\<lambda>r opts h. (Some image0, None)),
      RemoteBuilderMachine = (\<lambda>a. Inr (1, builder0)),
      Establish = None,
      ConnectToTunnel = (\<lambda>slug. None),
      IpAddress = (\<lambda>m. ''fdaa:0:1::3''),
      DialTimeout = (\<lambda>n. if n < 2 then Some (Foreign ''connection refused'') else None),
      ExecRun = (\<lambda>cmd. None),
      NewDeploymentTag = (\<lambda>a l. ''registry.fly.io/'' @ a @ '':deployment-1''),
      GetAPIToken = ''token'',
      RunSSHCommand = (\<lambda>a addr cmd. (''built'', None)),
      GetConfig = (\<lambda>a. Inr []),
      SetEnvVariables = (\<lambda>cfg env. cfg),
      DeployImage = (\<lambda>i. Inr (release0, None)),
      WatchReleaseCommand = (\<lambda>i. None),
      GetAppRelease = (\<lambda>a i. Inr release0),
      WatchDeployment = (\<lambda>i. None)\<rparr>"

definition build0 :: Build where
  "build0 = new_Build\<lparr>Build_Args := Some 5, Build_Dockerfile := ''docker/Dockerfile'',
                       Build_DockerBuildTarget := ''prod''\<rparr>"

definition config0 :: Config where
  "config0 = \<lparr>Config_Path = ''/proj/fly.toml'', Config_Build = Some build0,
              Config_Definition = [(''app'', ''shop'')]\<rparr>"

definition ctx0 :: ctx where
  "ctx0 =
     \<lparr>flag_nix = False, flag_remote_only = False, flag_local_only = False,
      flag_build_only = False, flag_detach = False, flag_no_cache = False,
      flag_image = [], flag_image_label = [], flag_dockerfile = [], flag_build_target = [],
      flag_strategy = [], flag_build_arg = [''B=3'', ''C=4''], flag_env = [],
      NameFromContext = ''shop'', WorkingDirectory = ''/home/dev/shop'',
      ConfigFromContext = Some config0\<rparr>"

text \<open>The heap holds the configuration's build arguments A=1 and B=2 at address 5.\<close>

definition state0 :: state where
  "state0 = \<lparr>trace = [], dials = 0,
             heap = [5 \<mapsto> [''A'' \<mapsto> ''1'', ''B'' \<mapsto> ''2'']], next_addr = 6\<rparr>"

text \<open>Variations of the inputs above.\<close>

definition ctx_target_flag :: ctx where
  "ctx_target_flag = ctx0\<lparr>flag_build_target := ''debug''\<rparr>"

definition ctx_dockerfile_flag :: ctx where
  "ctx_dockerfile_flag = ctx0\<lparr>flag_dockerfile := ''/other/Dockerfile''\<rparr>"

definition config_plain :: Config where
  "config_plain = config0\<lparr>Config_Build := None\<rparr>"



definition ctx_nix :: ctx where
  "ctx_nix = ctx0\<lparr>flag_nix := True\<rparr>"

definition ctx_build_only :: ctx where
  "ctx_build_only = ctx0\<lparr>flag_build_only := True\<rparr>"

definition ctx_detach :: ctx where
  "ctx_detach = ctx0\<lparr>flag_detach := True\<rparr>"

definition world_sync_fails :: world where
  "world_sync_fails = world0\<lparr>ExecRun := (\<lambda>cmd. Some (Foreign ''exit status 23''))\<rparr>"

definition world_build_fails :: world where
  "world_build_fails =
     world0\<lparr>RunSSHCommand := (\<lambda>a addr cmd. ([], Some (Foreign ''exit status 1'')))\<rparr>"

text \<open>The forwarded port never opens; the \<open>n\<close>-th dial fails with an error of its own.\<close>

definition world_port_closed :: world where
  "world_port_closed =
     world0\<lparr>DialTimeout := (\<lambda>n. Some (Foreign (''refused '' @ replicate n (CHR ''i''))))\<rparr>"

definition world_command :: world where
  "world_command =
     world0\<lparr>DeployImage := (\<lambda>i. Inr (release0, Some command0)),
            GetAppRelease := (\<lambda>a i. Inr release_immediate)\<rparr>"

definition world_watch_fails :: world where
  "world_watch_fails =
     world0\<lparr>WatchDeployment := (\<lambda>i. Some (Foreign ''deployment failed''))\<rparr>"

text \<open>The resolver and the options of a reference, as \<^verbatim>\<open>determineImage\<close> builds them.\<close>

definition resolver_of :: "ctx \<Rightarrow> Resolver" where
  "resolver_of c =
     \<lparr>res_allowLocal = (\<not> flag_remote_only c), res_allowRemote = (\<not> flag_local_only c),
      res_appName = NameFromContext c\<rparr>"

definition refOptions_of :: "ctx \<Rightarrow> string \<Rightarrow> RefOptions" where
  "refOptions_of c imageRef =
     \<lparr>ref_AppName = NameFromContext c, ref_WorkingDir = WorkingDirectory c,
      ref_Publish = (\<not> flag_build_only c), ref_ImageRef = imageRef,
      ref_ImageLabel = flag_image_label c\<rparr>"

text \<open>What \<open>n\<close> probes of the forwarded port add to the trace: a wait of one second
  before each dial, each dial with a timeout of one second.\<close>

definition probe_events :: "nat \<Rightarrow> event list" where
  "probe_events n = concat (replicate n [EvSleep 1, EvDialTimeout ''tcp'' ''localhost:8873'' 1])"

text \<open>The start of the background proxy and the call of its cancellation handle.\<close>

fun is_proxy_event :: "event \<Rightarrow> bool" where
  "is_proxy_event (EvProxyConnect p) = True"
| "is_proxy_event EvCancelProxy = True"
| "is_proxy_event e = False"

text \<open>The parameters of the proxy, the builder's address and the remote build command,
  as \<^verbatim>\<open>NixSourceBuild\<close> builds them.\<close>

definition proxy_params :: "world \<Rightarrow> machine \<Rightarrow> BuilderApp \<Rightarrow> ConnectParams" where
  "proxy_params w builderMachine builderApp =
     \<lparr>cp_Ports = [''8873'', ''873''], cp_App = builderApp,
      cp_RemoteHost = IpAddress w builderMachine\<rparr>"

definition builder_address :: "world \<Rightarrow> machine \<Rightarrow> string" where
  "builder_address w builderMachine = ''['' @ IpAddress w builderMachine @ '']''"

definition build_command :: "world \<Rightarrow> string \<Rightarrow> string" where
  "build_command w appName =
     ''/data/source/'' @ appName @ ''/bin/build.sh'' @ '' '' @ GetAPIToken w @ '' ''
       @ NewDeploymentTag w appName []"

text \<open>What the remote build prints on success.\<close>

definition response_events :: "string \<times> error option \<Rightarrow> event list" where
  "response_events r = (case r of (resp, None) \<Rightarrow> [EvPrintln resp] | (resp, Some e) \<Rightarrow> [])"

section \<open>The build-argument merge\<close>

lemma map_store_fields [simp]:
  "trace (map_store a k v s) = trace s"
  "dials (map_store a k v s) = dials s"
  "next_addr (map_store a k v s) = next_addr s"
  by (simp_all add: map_store_def split: option.splits)

lemma range_store_fields [simp]:
  "trace (range_store a kvs s) = trace s"
  "dials (range_store a kvs s) = dials s"
  "next_addr (range_store a kvs s) = next_addr s"
  by (induction a kvs s rule: range_store.induct) simp_all

lemma map_add_rev_Cons:
  "m ++ map_of (rev ((k, v) # kvs)) = m(k \<mapsto> v) ++ map_of (rev kvs)"
  by (rule ext) (simp add: map_add_def split: option.splits)

text \<open>A later entry of the loop overwrites an earlier one with the same key.\<close>

lemma range_store_heap:
  "heap s a = Some m \<Longrightarrow> heap (range_store a kvs s) a = Some (m ++ map_of (rev kvs))"
proof (induction a kvs s arbitrary: m rule: range_store.induct)
  case (1 a s)
  then show ?case by simp
next
  case (2 a k v kvs s)
  have "heap (map_store a k v s) a = Some (m(k \<mapsto> v))"
    using "2.prems" by (simp add: map_store_def)
  from "2.IH"[OF this] show ?case
    unfolding map_add_rev_Cons range_store.simps .
qed

lemma range_store_other:
  "b \<noteq> a \<Longrightarrow> heap (range_store a kvs s) b = heap s b"
  by (induction a kvs s rule: range_store.induct)
     (simp_all add: map_store_def split: option.splits)

lemma map_of_rev_distinct:
  "distinct (map fst kvs) \<Longrightarrow> map_of (rev kvs) = map_of kvs"
  by (simp add: distinct_map map_of_inject_set)

lemma mergeBuildArgs_ok:
  assumes "ParseKVStringsToMap w (flag_build_arg c) = Inr cli"
    and "distinct (map fst cli)"
    and "map_contents s args = Some cfgArgs"
  shows "\<exists>a s1. mergeBuildArgs w c args s = ((Some a, None), s1)
            \<and> heap s1 a = Some (cfgArgs ++ map_of cli) \<and> trace s1 = trace s"
proof (cases args)
  case None
  obtain a s1 where mk: "make_map s = (a, s1)" by (cases "make_map s")
  have h: "heap s1 a = Some Map.empty" and t: "trace s1 = trace s"
    using mk by (auto simp: make_map_def)
  have "cfgArgs = Map.empty" using None assms(3) by (simp add: map_contents_def)
  then show ?thesis
    using None assms(1,2) mk t range_store_heap[OF h, of cli]
    by (simp add: mergeBuildArgs_def map_of_rev_distinct)
next
  case (Some a)
  then have "heap s a = Some cfgArgs" using assms(3) by (simp add: map_contents_def)
  then show ?thesis
    using Some assms(1,2) range_store_heap[of s a cfgArgs cli]
    by (simp add: mergeBuildArgs_def map_of_rev_distinct)
qed

lemma map_add_map_of_dom:
  "dom (m ++ map_of kvs) = dom m \<union> fst ` set kvs"
  by (simp add: dom_map_of_conv_image_fst Un_commute)

lemma merge_example:
  "heap (snd (mergeBuildArgs world0 ctx0 (Some 5) state0)) 5
     = Some [''A'' \<mapsto> ''1'', ''B'' \<mapsto> ''3'', ''C'' \<mapsto> ''4'']"
  by (simp add: mergeBuildArgs_def world0_def ctx0_def state0_def map_store_def)

text \<open>
  Claim C9. The build-argument merge is the key-union of the configuration's arguments
  and the command-line arguments, and the command-line value wins on every key both
  have. Whenever the command-line arguments parse (to a Go map, so with distinct keys)
  and the configuration's map is nil or holds \<open>cfgArgs\<close>, \<^verbatim>\<open>mergeBuildArgs\<close> returns a
  map whose keys are those of either side, whose value at a command-line key is the
  command-line value and whose value at any other key is the configuration's. With
  configuration arguments A=1, B=2 and command-line arguments B=3, C=4 the result is
  A=1, B=3, C=4.
\<close>

theorem mergeBuildArgs_key_union:
  "(ParseKVStringsToMap w (flag_build_arg c) = Inr cli \<and> distinct (map fst cli)
      \<and> map_contents s args = Some cfgArgs
    \<longrightarrow> (\<exists>a s1 merged.
           mergeBuildArgs w c args s = ((Some a, None), s1) \<and> heap s1 a = Some merged
           \<and> dom merged = dom cfgArgs \<union> fst ` set cli
           \<and> (\<forall>k v. (k, v) \<in> set cli \<longrightarrow> merged k = Some v)
           \<and> (\<forall>k. k \<notin> fst ` set cli \<longrightarrow> merged k = cfgArgs k)))
   \<and> ParseKVStringsToMap world0 (flag_build_arg ctx0) = Inr [(''B'', ''3''), (''C'', ''4'')]
   \<and> map_contents state0 (Some 5) = Some [''A'' \<mapsto> ''1'', ''B'' \<mapsto> ''2'']
   \<and> mergeBuildArgs world0 ctx0 (Some 5) state0
       = ((Some 5, None), snd (mergeBuildArgs world0 ctx0 (Some 5) state0))
   \<and> heap (snd (mergeBuildArgs world0 ctx0 (Some 5) state0)) 5
       = Some [''A'' \<mapsto> ''1'', ''B'' \<mapsto> ''3'', ''C'' \<mapsto> ''4'']"
proof -
  have general: "\<exists>a s1 merged.
           mergeBuildArgs w c args s = ((Some a, None), s1) \<and> heap s1 a = Some merged
           \<and> dom merged = dom cfgArgs \<union> fst ` set cli
           \<and> (\<forall>k v. (k, v) \<in> set cli \<longrightarrow> merged k = Some v)
           \<and> (\<forall>k. k \<notin> fst ` set cli \<longrightarrow> merged k = cfgArgs k)"
    if p: "ParseKVStringsToMap w (flag_build_arg c) = Inr cli"
      and d: "distinct (map fst cli)"
      and m: "map_contents s args = Some cfgArgs"
  proof -
    obtain a s1 where r: "mergeBuildArgs w c args s = ((Some a, None), s1)"
      and h: "heap s1 a = Some (cfgArgs ++ map_of cli)"
      using mergeBuildArgs_ok[OF p d m] by blast
    have wins: "(cfgArgs ++ map_of cli) k = Some v" if "(k, v) \<in> set cli" for k v
      using that d by (simp add: map_add_Some_iff)
    have keeps: "(cfgArgs ++ map_of cli) k = cfgArgs k" if "k \<notin> fst ` set cli" for k
    proof -
      have "map_of cli k = None" using that by (simp add: map_of_eq_None_iff)
      then show ?thesis by (simp add: map_add_def)
    qed
    show ?thesis
      using r h wins keeps map_add_map_of_dom[of cfgArgs cli] by blast
  qed
  have e1: "ParseKVStringsToMap world0 (flag_build_arg ctx0) = Inr [(''B'', ''3''), (''C'', ''4'')]"
    by (simp add: world0_def)
  have e2: "map_contents state0 (Some 5) = Some [''A'' \<mapsto> ''1'', ''B'' \<mapsto> ''2'']"
    by (simp add: map_contents_def state0_def)
  have e3: "mergeBuildArgs world0 ctx0 (Some 5) state0
       = ((Some 5, None), snd (mergeBuildArgs world0 ctx0 (Some 5) state0))"
    by (simp add: mergeBuildArgs_def world0_def)
  show ?thesis
    using general e1 e2 e3 merge_example by blast
qed

theorem mergeBuildArgs_key_union_witness:
  "ParseKVStringsToMap world0 (flag_build_arg ctx0) = Inr [(''B'', ''3''), (''C'', ''4'')]
   \<and> distinct (map fst [(''B'', ''3''), (''C'', ''4'')])
   \<and> map_contents state0 (Some 5) = Some [''A'' \<mapsto> ''1'', ''B'' \<mapsto> ''2'']
   \<and> (\<exists>a s1 merged.
         mergeBuildArgs world0 ctx0 (Some 5) state0 = ((Some a, None), s1)
         \<and> heap s1 a = Some merged
         \<and> dom merged = {''A'', ''B'', ''C''}
         \<and> merged ''B'' = Some ''3'' \<and> merged ''C'' = Some ''4'' \<and> merged ''A'' = Some ''1'')"
proof -
  have p: "ParseKVStringsToMap world0 (flag_build_arg ctx0) = Inr [(''B'', ''3''), (''C'', ''4'')]"
    by (simp add: world0_def)
  have d: "distinct (map fst [(''B'', ''3''), (''C'', ''4'')])" by simp
  have m: "map_contents state0 (Some 5) = Some [''A'' \<mapsto> ''1'', ''B'' \<mapsto> ''2'']"
    by (simp add: map_contents_def state0_def)
  from mergeBuildArgs_key_union[of world0 ctx0 "[(''B'', ''3''), (''C'', ''4'')]" state0
      "Some 5" "[''A'' \<mapsto> ''1'', ''B'' \<mapsto> ''2'']"] p d m
  obtain a s1 merged where
    r: "mergeBuildArgs world0 ctx0 (Some 5) state0 = ((Some a, None), s1)"
    and h: "heap s1 a = Some merged"
    and dm: "dom merged = dom [''A'' \<mapsto> ''1'', ''B'' \<mapsto> ''2''] \<union> fst ` set [(''B'', ''3''), (''C'', ''4'')]"
    and wn: "\<forall>k v. (k, v) \<in> set [(''B'', ''3''), (''C'', ''4'')] \<longrightarrow> merged k = Some v"
    and kp: "\<forall>k. k \<notin> fst ` set [(''B'', ''3''), (''C'', ''4'')]
                \<longrightarrow> merged k = [''A'' \<mapsto> ''1'', ''B'' \<mapsto> ''2''] k"
    by blast
  have "dom merged = {''A'', ''B'', ''C''}" using dm by auto
  moreover have "merged ''B'' = Some ''3''" "merged ''C'' = Some ''4''" using wn by simp_all
  moreover have "merged ''A'' = Some ''1''" using kp by simp
  ultimately show ?thesis using p d m r h by blast
qed

section \<open>The merge writes into the configuration's own map\<close>

lemma emit_fields [simp]:
  "trace (emit e s) = trace s @ [e]"
  "dials (emit e s) = dials s"
  "heap (emit e s) = heap s"
  "next_addr (emit e s) = next_addr s"
  by (simp_all add: emit_def)

lemma fetchImageRef_no_error [simp]: "snd (fetchImageRef c cfg) = None"
  by (simp add: fetchImageRef_def split: option.splits)

text \<open>After the merge, a source build writes to no map: the heap stays as the merge left it.\<close>

lemma determineImage_source_heap:
  assumes "\<not> flag_nix c" and "fst (fetchImageRef c (Some cfg)) = []"
    and "mergeBuildArgs w c
           (Build_Args (case Config_Build cfg of None \<Rightarrow> new_Build | Some b \<Rightarrow> b)) s = (r, s1)"
  shows "heap (snd (determineImage w c (Some cfg) s)) = heap s1"
proof -
  obtain ref e where f: "fetchImageRef c (Some cfg) = (ref, e)"
    by (cases "fetchImageRef c (Some cfg)")
  have "ref = []" "e = None"
    using assms(2) f fetchImageRef_no_error[of c "Some cfg"] by simp_all
  then show ?thesis
    using assms(1,3) f
    by (simp add: determineImage_def Let_def split: prod.splits option.splits)
qed

lemma mergeBuildArgs_same_map:
  assumes "ParseKVStringsToMap w (flag_build_arg c) = Inr cli"
    and "distinct (map fst cli)"
    and "heap s a = Some cfgArgs"
  shows "mergeBuildArgs w c (Some a) s = ((Some a, None), range_store a cli s)"
    and "heap (range_store a cli s) a = Some (cfgArgs ++ map_of cli)"
  using assms range_store_heap[of s a cfgArgs cli]
  by (simp_all add: mergeBuildArgs_def map_of_rev_distinct)

text \<open>
  Claim C10. When the configuration's build-argument map is not nil (it is the map
  object at address \<open>a\<close>, holding \<open>cfgArgs\<close>) and the command-line arguments parse,
  \<^verbatim>\<open>mergeBuildArgs\<close> returns that same address, allocates no map, leaves every other
  map alone and leaves the merged arguments in the map at \<open>a\<close>. So after a source
  build's \<^verbatim>\<open>determineImage\<close> the map the caller's configuration refers to holds the
  merged arguments, whatever the later steps of the build return.
\<close>

theorem mergeBuildArgs_in_place:
  "(ParseKVStringsToMap w (flag_build_arg c) = Inr cli \<and> distinct (map fst cli)
      \<and> heap s a = Some cfgArgs
    \<longrightarrow> (\<exists>s1. mergeBuildArgs w c (Some a) s = ((Some a, None), s1)
           \<and> heap s1 a = Some (cfgArgs ++ map_of cli)
           \<and> next_addr s1 = next_addr s
           \<and> (\<forall>b. b \<noteq> a \<longrightarrow> heap s1 b = heap s b)))
   \<and> (ParseKVStringsToMap w (flag_build_arg c) = Inr cli \<and> distinct (map fst cli)
      \<and> heap s a = Some cfgArgs
      \<and> \<not> flag_nix c \<and> fst (fetchImageRef c (Some cfg)) = []
      \<and> Config_Build cfg = Some b \<and> Build_Args b = Some a
    \<longrightarrow> heap (snd (determineImage w c (Some cfg) s)) a = Some (cfgArgs ++ map_of cli))"
proof (intro conjI impI)
  assume h: "ParseKVStringsToMap w (flag_build_arg c) = Inr cli \<and> distinct (map fst cli)
      \<and> heap s a = Some cfgArgs"
  show "\<exists>s1. mergeBuildArgs w c (Some a) s = ((Some a, None), s1)
           \<and> heap s1 a = Some (cfgArgs ++ map_of cli)
           \<and> next_addr s1 = next_addr s
           \<and> (\<forall>b. b \<noteq> a \<longrightarrow> heap s1 b = heap s b)"
    using h mergeBuildArgs_same_map[of w c cli s a cfgArgs] range_store_other[of _ a cli s]
    by simp
next
  assume h: "ParseKVStringsToMap w (flag_build_arg c) = Inr cli \<and> distinct (map fst cli)
      \<and> heap s a = Some cfgArgs
      \<and> \<not> flag_nix c \<and> fst (fetchImageRef c (Some cfg)) = []
      \<and> Config_Build cfg = Some b \<and> Build_Args b = Some a"
  have m: "mergeBuildArgs w c
             (Build_Args (case Config_Build cfg of None \<Rightarrow> new_Build | Some b \<Rightarrow> b)) s
           = ((Some a, None), range_store a cli s)"
    using h mergeBuildArgs_same_map(1)[of w c cli s a cfgArgs] by simp
  show "heap (snd (determineImage w c (Some cfg) s)) a = Some (cfgArgs ++ map_of cli)"
    using h determineImage_source_heap[OF _ _ m]
      mergeBuildArgs_same_map(2)[of w c cli s a cfgArgs]
    by simp
qed

theorem mergeBuildArgs_in_place_witness:
  "ParseKVStringsToMap world0 (flag_build_arg ctx0) = Inr [(''B'', ''3''), (''C'', ''4'')]
   \<and> distinct (map fst [(''B'', ''3''), (''C'', ''4'')])
   \<and> heap state0 5 = Some [''A'' \<mapsto> ''1'', ''B'' \<mapsto> ''2'']
   \<and> \<not> flag_nix ctx0 \<and> fst (fetchImageRef ctx0 (Some config0)) = []
   \<and> Config_Build config0 = Some build0 \<and> Build_Args build0 = Some 5
   \<and> heap (snd (determineImage world0 ctx0 (Some config0) state0)) 5
       = Some [''A'' \<mapsto> ''1'', ''B'' \<mapsto> ''3'', ''C'' \<mapsto> ''4'']
   \<and> heap (snd (determineImage world0 ctx0 (Some config0) state0)) 5 \<noteq> heap state0 5"
proof -
  have p: "ParseKVStringsToMap world0 (flag_build_arg ctx0) = Inr [(''B'', ''3''), (''C'', ''4'')]"
    by (simp add: world0_def)
  have d: "distinct (map fst [(''B'', ''3''), (''C'', ''4'')])" by simp
  have m: "heap state0 5 = Some [''A'' \<mapsto> ''1'', ''B'' \<mapsto> ''2'']"
    by (simp add: state0_def)
  have n: "\<not> flag_nix ctx0" by (simp add: ctx0_def)
  have f: "fst (fetchImageRef ctx0 (Some config0)) = []"
    by (simp add: fetchImageRef_def ctx0_def config0_def build0_def new_Build_def)
  have b: "Config_Build config0 = Some build0" by (simp add: config0_def)
  have a: "Build_Args build0 = Some 5" by (simp add: build0_def)
  have eq: "[''A'' \<mapsto> ''1'', ''B'' \<mapsto> ''2''] ++ map_of [(''B'', ''3''), (''C'', ''4'')]
              = [''A'' \<mapsto> ''1'', ''B'' \<mapsto> ''3'', ''C'' \<mapsto> ''4'']"
    by (rule ext) simp
  have r: "heap (snd (determineImage world0 ctx0 (Some config0) state0)) 5
       = Some [''A'' \<mapsto> ''1'', ''B'' \<mapsto> ''3'', ''C'' \<mapsto> ''4'']"
    using mergeBuildArgs_in_place[of world0 ctx0 "[(''B'', ''3''), (''C'', ''4'')]" state0 5
        "[''A'' \<mapsto> ''1'', ''B'' \<mapsto> ''2'']" config0 build0] p d m n f b a
    unfolding eq by blast
  have ne: "[''A'' \<mapsto> ''1'', ''B'' \<mapsto> ''3'', ''C'' \<mapsto> ''4''] \<noteq> [''A'' \<mapsto> ''1'', ''B'' \<mapsto> ''2'']"
  proof
    assume "[''A'' \<mapsto> ''1'', ''B'' \<mapsto> ''3'', ''C'' \<mapsto> ''4''] = [''A'' \<mapsto> ''1'', ''B'' \<mapsto> ''2'']"
    then have "[''A'' \<mapsto> ''1'', ''B'' \<mapsto> ''3'', ''C'' \<mapsto> ''4''] ''C''
                 = [''A'' \<mapsto> ''1'', ''B'' \<mapsto> ''2''] ''C''"
      by (rule arg_cong)
    then show False by simp
  qed
  show ?thesis using p d m n f b a r ne by simp
qed

section \<open>The build target and the Dockerfile path\<close>

text \<open>
  Claim C1. The claim gives the command-line build target precedence over the
  configuration's. The source tests the configuration's target first and reads the
  flag only when the configuration declares none: the target of the options is the
  configuration's whenever that is not empty. With the configuration declaring
  \<^verbatim>\<open>prod\<close> and the flag \<^verbatim>\<open>--build-target debug\<close>, the Docker build is asked for
  \<^verbatim>\<open>prod\<close>.
\<close>

theorem build_target_config_first:
  "opts_Target (sourceBuildOptions c cfg build buildArgs path)
     = (if DockerBuildTarget cfg \<noteq> [] then DockerBuildTarget cfg else flag_build_target c)
   \<and> DockerBuildTarget config0 = ''prod''
   \<and> flag_build_target ctx_target_flag = ''debug''
   \<and> build_targets (trace (snd (determineImage world0 ctx_target_flag (Some config0) state0)))
       = [''prod'']"
proof -
  have g: "opts_Target (sourceBuildOptions c cfg build buildArgs path)
     = (if DockerBuildTarget cfg \<noteq> [] then DockerBuildTarget cfg else flag_build_target c)"
    by (simp add: sourceBuildOptions_def Let_def)
  have t: "DockerBuildTarget config0 = ''prod''"
    by (simp add: DockerBuildTarget_def config0_def build0_def)
  have f: "flag_build_target ctx_target_flag = ''debug''"
    by (simp add: ctx_target_flag_def)
  have e: "build_targets (trace (snd (determineImage world0 ctx_target_flag (Some config0) state0)))
       = [''prod'']"
    by (simp add: determineImage_def fetchImageRef_def mergeBuildArgs_def
        resolveDockerfilePath_def sourceBuildOptions_def Dockerfile_def DockerBuildTarget_def
        filepath_Dir_def filepath_Clean_def filepath_IsAbs_def filepath_Abs_def
        world0_def ctx0_def ctx_target_flag_def config0_def build0_def new_Build_def
        state0_def image0_def)
  show ?thesis using g t f e by blast
qed

text \<open>
  Claim C2. With the configuration at \<^verbatim>\<open>/proj/fly.toml\<close> declaring the relative path
  \<^verbatim>\<open>docker/Dockerfile\<close> and no flag, the resolved path is \<^verbatim>\<open>/proj/docker/Dockerfile\<close>,
  as the claim says; without a declared path the flag's path is used. But the source
  reads the flag only when the configuration declares no path: with the same
  configuration and \<^verbatim>\<open>--dockerfile /other/Dockerfile\<close> the result is still
  \<^verbatim>\<open>/proj/docker/Dockerfile\<close>, where the claim has the flag override it.
\<close>

theorem dockerfile_path_config_first:
  "resolveDockerfilePath world0 ctx0 config0 = (''/proj/docker/Dockerfile'', None)
   \<and> flag_dockerfile ctx_dockerfile_flag = ''/other/Dockerfile''
   \<and> resolveDockerfilePath world0 ctx_dockerfile_flag config_plain
       = (''/other/Dockerfile'', None)
   \<and> resolveDockerfilePath world0 ctx_dockerfile_flag config0
       = (''/proj/docker/Dockerfile'', None)"
proof -
  have a: "resolveDockerfilePath world0 ctx0 config0 = (''/proj/docker/Dockerfile'', None)"
    by (simp add: resolveDockerfilePath_def Dockerfile_def filepath_Dir_def
        filepath_Clean_def filepath_IsAbs_def filepath_Abs_def
        world0_def ctx0_def config0_def build0_def new_Build_def)
  have b: "flag_dockerfile ctx_dockerfile_flag = ''/other/Dockerfile''"
    by (simp add: ctx_dockerfile_flag_def)
  have c: "resolveDockerfilePath world0 ctx_dockerfile_flag config_plain
       = (''/other/Dockerfile'', None)"
    by (simp add: resolveDockerfilePath_def Dockerfile_def filepath_Dir_def
        filepath_Clean_def filepath_IsAbs_def filepath_Abs_def
        world0_def ctx0_def ctx_dockerfile_flag_def config_plain_def config0_def)
  have d: "resolveDockerfilePath world0 ctx_dockerfile_flag config0
       = (''/proj/docker/Dockerfile'', None)"
    by (simp add: resolveDockerfilePath_def Dockerfile_def filepath_Dir_def
        filepath_Clean_def filepath_IsAbs_def filepath_Abs_def
        world0_def ctx0_def ctx_dockerfile_flag_def config0_def build0_def new_Build_def)
  show ?thesis using a b c d by blast
qed

section \<open>An image or an error\<close>

lemma with_defer_fst [simp]: "fst (with_defer d body s) = fst (body s)"
  by (simp add: with_defer_def split: prod.splits)










section \<open>The Port Readiness Prober\<close>

lemma probe_fn_eq:
  "probe_fn w s = (DialTimeout w (dials s),
      s\<lparr>trace := trace s @ [EvSleep 1, EvDialTimeout ''tcp'' ''localhost:8873'' 1],
        dials := Suc (dials s)\<rparr>)"
  by (simp add: probe_fn_def waitForLocalPort_def emit_def)

lemma probe_events_Suc:
  "probe_events (Suc n) = EvSleep 1 # EvDialTimeout ''tcp'' ''localhost:8873'' 1 # probe_events n"
  by (simp add: probe_events_def)

lemma probe_events_0: "probe_events 0 = []"
  by (simp add: probe_events_def)

lemma Retry_loop_success:
  "k < n \<Longrightarrow> DialTimeout w (dials s + k) = None
     \<Longrightarrow> (\<forall>j<k. DialTimeout w (dials s + j) \<noteq> None)
     \<Longrightarrow> Retry_loop (probe_fn w) n l s
          = (None, s\<lparr>trace := trace s @ probe_events (Suc k), dials := dials s + Suc k\<rparr>)"
proof (induction n arbitrary: k l s)
  case 0
  then show ?case by simp
next
  case (Suc n)
  let ?s1 = "s\<lparr>trace := trace s @ [EvSleep 1, EvDialTimeout ''tcp'' ''localhost:8873'' 1],
                   dials := Suc (dials s)\<rparr>"
  show ?case
  proof (cases k)
    case 0
    then have step: "probe_fn w s = (None, ?s1)"
      using Suc.prems(2) by (simp add: probe_fn_eq)
    have "Retry_loop (probe_fn w) (Suc n) l s = (None, ?s1)"
      by (simp add: step)
    then show ?thesis using 0 by (simp add: probe_events_Suc probe_events_0)
  next
    case (Suc k')
    obtain e where e: "DialTimeout w (dials s) = Some e"
      using Suc.prems(3) Suc by (cases "DialTimeout w (dials s)") auto
    have step: "probe_fn w s = (Some e, ?s1)"
      using e by (simp add: probe_fn_eq)
    have unf: "Retry_loop (probe_fn w) (Suc n) l s = Retry_loop (probe_fn w) n (Some e) ?s1"
      by (simp add: step)
    have a: "k' < n" using Suc.prems(1) Suc by simp
    have b: "DialTimeout w (dials ?s1 + k') = None" using Suc.prems(2) Suc by simp
    have c: "\<forall>j<k'. DialTimeout w (dials ?s1 + j) \<noteq> None"
    proof (intro allI impI)
      fix j assume "j < k'"
      then have "Suc j < k" using Suc by simp
      then show "DialTimeout w (dials ?s1 + j) \<noteq> None" using Suc.prems(3) by auto
    qed
    have ih: "Retry_loop (probe_fn w) n (Some e) ?s1
           = (None, ?s1\<lparr>trace := trace ?s1 @ probe_events (Suc k'), dials := dials ?s1 + Suc k'\<rparr>)"
      using Suc.IH[OF a b c] .
    show ?thesis unfolding unf ih using Suc
      by (simp add: probe_events_Suc)
  qed
qed

lemma Retry_loop_exhausted:
  "(\<forall>j<n. DialTimeout w (dials s + j) \<noteq> None)
     \<Longrightarrow> Retry_loop (probe_fn w) n l s
          = (map_option RetriesExhausted (if n = 0 then l else DialTimeout w (dials s + (n - 1))),
             s\<lparr>trace := trace s @ probe_events n, dials := dials s + n\<rparr>)"
proof (induction n arbitrary: l s)
  case 0
  then show ?case by (simp add: probe_events_0)
next
  case (Suc n)
  obtain e where e: "DialTimeout w (dials s) = Some e"
    using Suc.prems by (cases "DialTimeout w (dials s)") auto
  let ?s1 = "s\<lparr>trace := trace s @ [EvSleep 1, EvDialTimeout ''tcp'' ''localhost:8873'' 1],
                   dials := Suc (dials s)\<rparr>"
  have step: "probe_fn w s = (Some e, ?s1)"
    using e by (simp add: probe_fn_eq)
  have unf: "Retry_loop (probe_fn w) (Suc n) l s = Retry_loop (probe_fn w) n (Some e) ?s1"
    by (simp add: step)
  have c: "\<forall>j<n. DialTimeout w (dials ?s1 + j) \<noteq> None"
  proof (intro allI impI)
    fix j assume "j < n"
    then have "Suc j < Suc n" by simp
    then show "DialTimeout w (dials ?s1 + j) \<noteq> None" using Suc.prems by auto
  qed
  have ih: "Retry_loop (probe_fn w) n (Some e) ?s1
         = (map_option RetriesExhausted (if n = 0 then Some e else DialTimeout w (dials ?s1 + (n - 1))),
             ?s1\<lparr>trace := trace ?s1 @ probe_events n, dials := dials ?s1 + n\<rparr>)"
    using Suc.IH[OF c] .
  show ?case unfolding unf ih using e
    by (cases n) (simp_all add: probe_events_Suc probe_events_0)
qed


lemma probe_events_dials: "length (filter is_DialTimeout (probe_events n)) = n"
  by (induction n) (simp_all add: probe_events_Suc probe_events_0)

lemma new_events_append [simp]:
  "new_events s (s\<lparr>trace := trace s @ ev, dials := d\<rparr>) = ev"
  by (simp add: new_events_def)

lemma first_success:
  assumes "\<not> (\<forall>j<n. DialTimeout w (d + j) \<noteq> None)"
  shows "\<exists>k<n. DialTimeout w (d + k) = None \<and> (\<forall>j<k. DialTimeout w (d + j) \<noteq> None)"
proof -
  define k where "k = (LEAST j. DialTimeout w (d + j) = None)"
  obtain j0 where j0: "j0 < n" "DialTimeout w (d + j0) = None" using assms by auto
  have a: "DialTimeout w (d + k) = None" unfolding k_def using j0(2) by (rule LeastI)
  have b: "k \<le> j0" unfolding k_def using j0(2) by (rule Least_le)
  have c: "\<forall>j<k. DialTimeout w (d + j) \<noteq> None"
    unfolding k_def using not_less_Least by blast
  have "k < n" using b j0(1) by simp
  then show ?thesis using a c by blast
qed

lemma Retry_cases:
  "(\<exists>k<10. DialTimeout w (dials s + k) = None \<and> (\<forall>j<k. DialTimeout w (dials s + j) \<noteq> None)
      \<and> Retry (probe_fn w) 10 s
          = (None, s\<lparr>trace := trace s @ probe_events (Suc k), dials := dials s + Suc k\<rparr>))
   \<or> ((\<forall>j<10. DialTimeout w (dials s + j) \<noteq> None)
      \<and> (\<exists>e. DialTimeout w (dials s + 9) = Some e
         \<and> Retry (probe_fn w) 10 s
          = (Some (RetriesExhausted e), s\<lparr>trace := trace s @ probe_events 10, dials := dials s + 10\<rparr>)))"
proof (cases "\<forall>j<10. DialTimeout w (dials s + j) \<noteq> None")
  case True
  have "(9::nat) < 10" by simp
  with True have "DialTimeout w (dials s + 9) \<noteq> None" by blast
  then obtain e where e: "DialTimeout w (dials s + 9) = Some e" by blast
  have "Retry (probe_fn w) 10 s
          = (Some (RetriesExhausted e), s\<lparr>trace := trace s @ probe_events 10, dials := dials s + 10\<rparr>)"
    unfolding Retry_def Retry_loop_exhausted[OF True, of None] using e by simp
  then show ?thesis using True e by blast
next
  case False
  from first_success[OF False] obtain k where k: "k < 10" "DialTimeout w (dials s + k) = None"
    "\<forall>j<k. DialTimeout w (dials s + j) \<noteq> None" by blast
  have "Retry (probe_fn w) 10 s
          = (None, s\<lparr>trace := trace s @ probe_events (Suc k), dials := dials s + Suc k\<rparr>)"
    unfolding Retry_def using Retry_loop_success[OF k, of None] .
  then show ?thesis using k by blast
qed

lemma proxied_build_exhausted:
  assumes "\<forall>j<10. DialTimeout w (dials s + j) \<noteq> None" and "DialTimeout w (dials s + 9) = Some e"
  shows "fst (proxied_build w n wd m b s)
     = (None, Some (Errorf ''rsync proxy failed to connect after 10 seconds: '' (RetriesExhausted e)))"
proof -
  let ?s1 = "emit (EvProxyConnect \<lparr>cp_Ports = [''8873'', ''873''], cp_App = b,
                     cp_RemoteHost = IpAddress w m\<rparr>) s"
  have d: "dials ?s1 = dials s" by simp
  have a: "\<forall>j<10. DialTimeout w (dials ?s1 + j) \<noteq> None" unfolding d using assms(1) .
  have "Retry (probe_fn w) 10 ?s1
     = (Some (RetriesExhausted e), ?s1\<lparr>trace := trace ?s1 @ probe_events 10, dials := dials ?s1 + 10\<rparr>)"
    unfolding Retry_def Retry_loop_exhausted[OF a, of None] d using assms(2) by simp
  then show ?thesis
    by (simp add: proxied_build_def Let_def)
qed


text \<open>
  Claim C6. The Port Readiness Prober, run with the probe of \<^verbatim>\<open>NixSourceBuild\<close> and the
  bound 10. If the first dial to succeed is the \<open>k\<close>-th one made (counted from 0, with
  \<open>k < 10\<close>), the prober returns success after exactly \<open>k + 1\<close> probes and makes no
  further attempt. If all ten dials fail it returns an error that wraps the error of
  the tenth dial, after exactly ten probes, and \<^verbatim>\<open>NixSourceBuild\<close> wraps that error
  again. Each probe is a wait of one second followed by one dial with a timeout of one
  second; there are at most ten dials; and an error is returned only when all ten
  dials failed.
\<close>

theorem port_readiness_prober:
  "(k < 10 \<and> DialTimeout w (dials s + k) = None
      \<and> (\<forall>j<k. DialTimeout w (dials s + j) \<noteq> None)
    \<longrightarrow> Retry (probe_fn w) 10 s
         = (None, s\<lparr>trace := trace s @ probe_events (Suc k), dials := dials s + Suc k\<rparr>))
   \<and> ((\<forall>j<10. DialTimeout w (dials s + j) \<noteq> None)
    \<longrightarrow> (\<exists>e. DialTimeout w (dials s + 9) = Some e
          \<and> Retry (probe_fn w) 10 s
              = (Some (RetriesExhausted e),
                 s\<lparr>trace := trace s @ probe_events 10, dials := dials s + 10\<rparr>)
          \<and> fst (proxied_build w n wd m b s)
              = (None, Some (Errorf ''rsync proxy failed to connect after 10 seconds: ''
                               (RetriesExhausted e)))
          \<and> wraps (Errorf ''rsync proxy failed to connect after 10 seconds: ''
                     (RetriesExhausted e)) e))
   \<and> length (filter is_DialTimeout (new_events s (snd (Retry (probe_fn w) 10 s)))) \<le> 10
   \<and> (fst (Retry (probe_fn w) 10 s) \<noteq> None
        \<longrightarrow> (\<forall>j<10. DialTimeout w (dials s + j) \<noteq> None))"
proof (intro conjI impI)
  assume h: "k < 10 \<and> DialTimeout w (dials s + k) = None
      \<and> (\<forall>j<k. DialTimeout w (dials s + j) \<noteq> None)"
  show "Retry (probe_fn w) 10 s
         = (None, s\<lparr>trace := trace s @ probe_events (Suc k), dials := dials s + Suc k\<rparr>)"
    unfolding Retry_def using h Retry_loop_success[of k 10 w s None] by blast
next
  assume h: "\<forall>j<10. DialTimeout w (dials s + j) \<noteq> None"
  from Retry_cases[of w s] h obtain e where e: "DialTimeout w (dials s + 9) = Some e"
    and r: "Retry (probe_fn w) 10 s
              = (Some (RetriesExhausted e),
                 s\<lparr>trace := trace s @ probe_events 10, dials := dials s + 10\<rparr>)"
    by blast
  have p: "fst (proxied_build w n wd m b s)
              = (None, Some (Errorf ''rsync proxy failed to connect after 10 seconds: ''
                               (RetriesExhausted e)))"
    using proxied_build_exhausted[OF h e] .
  have "wraps (Errorf ''rsync proxy failed to connect after 10 seconds: ''
                     (RetriesExhausted e)) e"
    by (cases e) simp_all
  then show "\<exists>e. DialTimeout w (dials s + 9) = Some e
          \<and> Retry (probe_fn w) 10 s
              = (Some (RetriesExhausted e),
                 s\<lparr>trace := trace s @ probe_events 10, dials := dials s + 10\<rparr>)
          \<and> fst (proxied_build w n wd m b s)
              = (None, Some (Errorf ''rsync proxy failed to connect after 10 seconds: ''
                               (RetriesExhausted e)))
          \<and> wraps (Errorf ''rsync proxy failed to connect after 10 seconds: ''
                     (RetriesExhausted e)) e"
    using e r p by blast
next
  show "length (filter is_DialTimeout (new_events s (snd (Retry (probe_fn w) 10 s)))) \<le> 10"
    using Retry_cases[of w s] by (auto simp add: probe_events_dials)
next
  assume "fst (Retry (probe_fn w) 10 s) \<noteq> None"
  then show "\<forall>j<10. DialTimeout w (dials s + j) \<noteq> None"
    using Retry_cases[of w s] by auto
qed

theorem port_readiness_prober_witness:
  "(2::nat) < 10 \<and> DialTimeout world0 (dials state0 + 2) = None
   \<and> DialTimeout world0 (dials state0 + 0) \<noteq> None \<and> DialTimeout world0 (dials state0 + 1) \<noteq> None
   \<and> Retry (probe_fn world0) 10 state0
       = (None, state0\<lparr>trace := trace state0 @ probe_events 3, dials := dials state0 + 3\<rparr>)
   \<and> DialTimeout world_port_closed (dials state0 + 9) = Some (Foreign ''refused iiiiiiiii'')
   \<and> Retry (probe_fn world_port_closed) 10 state0
       = (Some (RetriesExhausted (Foreign ''refused iiiiiiiii'')),
          state0\<lparr>trace := trace state0 @ probe_events 10, dials := dials state0 + 10\<rparr>)"
proof -
  have a: "(2::nat) < 10" by simp
  have b: "DialTimeout world0 (dials state0 + 2) = None"
    by (simp add: world0_def state0_def)
  have c: "\<forall>j<2. DialTimeout world0 (dials state0 + j) \<noteq> None"
    by (simp add: world0_def state0_def)
  have c0: "DialTimeout world0 (dials state0 + 0) \<noteq> None"
    and c1: "DialTimeout world0 (dials state0 + 1) \<noteq> None"
    by (simp_all add: world0_def state0_def)
  have d: "\<forall>j<10. DialTimeout world_port_closed (dials state0 + j) \<noteq> None"
    by (simp add: world_port_closed_def)
  have e: "DialTimeout world_port_closed (dials state0 + 9) = Some (Foreign ''refused iiiiiiiii'')"
    by (simp add: world_port_closed_def state0_def eval_nat_numeral)
  have r1: "Retry (probe_fn world0) 10 state0
       = (None, state0\<lparr>trace := trace state0 @ probe_events 3, dials := dials state0 + 3\<rparr>)"
    using port_readiness_prober[of 2 world0 state0] a b c by (simp add: eval_nat_numeral)
  have r2: "Retry (probe_fn world_port_closed) 10 state0
       = (Some (RetriesExhausted (Foreign ''refused iiiiiiiii'')),
          state0\<lparr>trace := trace state0 @ probe_events 10, dials := dials state0 + 10\<rparr>)"
    using port_readiness_prober[of _ world_port_closed state0] d e by auto
  show ?thesis using a b c0 c1 e r1 r2 by blast
qed

section \<open>The Remote Sync and Build Executor\<close>

lemma probe_fn_ExecRun [simp]: "probe_fn (w\<lparr>ExecRun := r\<rparr>) = probe_fn w"
  by (rule ext) (simp add: probe_fn_def waitForLocalPort_def)

lemma sync_and_build_fst:
  "fst (sync_and_build w n wd m b s)
     = (case RunSSHCommand w b (builder_address w m) (build_command w n) of
          (resp, Some e) \<Rightarrow> (None, Some (Errorf [] e))
        | (resp, None) \<Rightarrow>
            (Some \<lparr>img_ID = NewDeploymentTag w n [], img_Tag = NewDeploymentTag w n [],
                   img_Size = 10\<rparr>, None))"
  by (simp add: sync_and_build_def Let_def builder_address_def build_command_def
      split: prod.splits option.splits)

lemma sync_and_build_trace:
  "trace (snd (sync_and_build w n wd m b s))
     = trace s @ [EvExecRun (rsync_command wd)]
        @ (case ExecRun w (rsync_command wd) of
             Some e \<Rightarrow> [EvPrintlnError (Errorf ''code rsync failed: '' e)]
           | None \<Rightarrow> [])
        @ [EvPrintln ''Running Nix build...'',
           EvRunSSHCommand b (builder_address w m) (build_command w n)]
        @ response_events (RunSSHCommand w b (builder_address w m) (build_command w n))"
  by (simp add: sync_and_build_def Let_def builder_address_def build_command_def response_events_def
      split: prod.splits option.splits)

lemma proxied_build_ExecRun:
  "fst (proxied_build (w\<lparr>ExecRun := r\<rparr>) n wd m b s) = fst (proxied_build w n wd m b s)"
  by (simp add: proxied_build_def Let_def sync_and_build_fst builder_address_def build_command_def
      split: prod.splits option.splits)

lemma NixSourceBuild_ExecRun:
  "fst (NixSourceBuild (w\<lparr>ExecRun := r\<rparr>) c wd s) = fst (NixSourceBuild w c wd s)"
  by (simp add: NixSourceBuild_def Let_def proxied_build_ExecRun
      split: prod.splits option.splits sum.splits)

lemma with_defer_trace:
  "trace (snd (with_defer (emit e) body s)) = trace (snd (body s)) @ [e]"
  by (simp add: with_defer_def split: prod.splits)

lemma proxied_build_ready_trace:
  assumes "k < 10" "DialTimeout w (dials s + k) = None" "\<forall>j<k. DialTimeout w (dials s + j) \<noteq> None"
  shows "trace (snd (proxied_build w n wd m b s))
     = trace s @ [EvProxyConnect (proxy_params w m b)] @ probe_events (Suc k)
        @ [EvFprintf (''Proxy connected. Syncing source code to the remote builder ''
                                   @ app_Name b @ [CHR 0x0A])]
        @ [EvExecRun (rsync_command wd)]
        @ (case ExecRun w (rsync_command wd) of
             Some e \<Rightarrow> [EvPrintlnError (Errorf ''code rsync failed: '' e)]
           | None \<Rightarrow> [])
        @ [EvPrintln ''Running Nix build...'',
           EvRunSSHCommand b (builder_address w m) (build_command w n)]
        @ response_events (RunSSHCommand w b (builder_address w m) (build_command w n))"
proof -
  let ?s1 = "emit (EvProxyConnect (proxy_params w m b)) s"
  have d: "dials ?s1 = dials s" by simp
  have r: "Retry (probe_fn w) 10 ?s1
     = (None, ?s1\<lparr>trace := trace ?s1 @ probe_events (Suc k), dials := dials ?s1 + Suc k\<rparr>)"
    unfolding Retry_def using Retry_loop_success[of k 10 w ?s1 None] assms unfolding d by blast
  show ?thesis
    using r by (simp add: proxied_build_def Let_def proxy_params_def sync_and_build_trace)
qed


lemma new_events_eq: "trace s1 = trace s @ ev \<Longrightarrow> new_events s s1 = ev"
  by (simp add: new_events_def)

lemma NixSourceBuild_ready:
  assumes "RemoteBuilderMachine w (NameFromContext c) = Inr (m, b)"
    and "Establish w = None"
    and "ConnectToTunnel w (app_OrganizationSlug b) = None"
    and "k < 10" "DialTimeout w (dials s + k) = None"
      "\<forall>j<k. DialTimeout w (dials s + j) \<noteq> None"
  shows "trace (snd (NixSourceBuild w c wd s))
     = trace s
        @ [EvRemoteBuilderMachine (NameFromContext c), EvEstablish,
           EvConnectToTunnel (app_OrganizationSlug b), EvProxyConnect (proxy_params w m b)]
        @ probe_events (Suc k)
        @ [EvFprintf (''Proxy connected. Syncing source code to the remote builder ''
                        @ app_Name b @ [CHR 0x0A]),
           EvExecRun (rsync_command wd)]
        @ (case ExecRun w (rsync_command wd) of
             Some e \<Rightarrow> [EvPrintlnError (Errorf ''code rsync failed: '' e)]
           | None \<Rightarrow> [])
        @ [EvPrintln ''Running Nix build...'',
           EvRunSSHCommand b (builder_address w m) (build_command w (NameFromContext c))]
        @ response_events
            (RunSSHCommand w b (builder_address w m) (build_command w (NameFromContext c)))
        @ [EvCancelProxy]"
    and "fst (NixSourceBuild w c wd s)
     = (case RunSSHCommand w b (builder_address w m) (build_command w (NameFromContext c)) of
          (resp, Some e) \<Rightarrow> (None, Some (Errorf [] e))
        | (resp, None) \<Rightarrow>
            (Some \<lparr>img_ID = NewDeploymentTag w (NameFromContext c) [],
                   img_Tag = NewDeploymentTag w (NameFromContext c) [], img_Size = 10\<rparr>, None))"
proof -
  let ?s3 = "emit (EvConnectToTunnel (app_OrganizationSlug b))
               (emit EvEstablish (emit (EvRemoteBuilderMachine (NameFromContext c)) s))"
  have d: "dials ?s3 = dials s" by simp
  have a: "DialTimeout w (dials ?s3 + k) = None" "\<forall>j<k. DialTimeout w (dials ?s3 + j) \<noteq> None"
    unfolding d using assms(5,6) by blast+
  have n: "NixSourceBuild w c wd s
     = with_defer (emit EvCancelProxy) (proxied_build w (NameFromContext c) wd m b) ?s3"
    using assms(1,2,3) by (simp add: NixSourceBuild_def Let_def)
  show "trace (snd (NixSourceBuild w c wd s))
     = trace s
        @ [EvRemoteBuilderMachine (NameFromContext c), EvEstablish,
           EvConnectToTunnel (app_OrganizationSlug b), EvProxyConnect (proxy_params w m b)]
        @ probe_events (Suc k)
        @ [EvFprintf (''Proxy connected. Syncing source code to the remote builder ''
                        @ app_Name b @ [CHR 0x0A]),
           EvExecRun (rsync_command wd)]
        @ (case ExecRun w (rsync_command wd) of
             Some e \<Rightarrow> [EvPrintlnError (Errorf ''code rsync failed: '' e)]
           | None \<Rightarrow> [])
        @ [EvPrintln ''Running Nix build...'',
           EvRunSSHCommand b (builder_address w m) (build_command w (NameFromContext c))]
        @ response_events
            (RunSSHCommand w b (builder_address w m) (build_command w (NameFromContext c)))
        @ [EvCancelProxy]"
    unfolding n with_defer_trace proxied_build_ready_trace[OF assms(4) a] by simp
  have p: "fst (proxied_build w (NameFromContext c) wd m b ?s3)
      = fst (sync_and_build w (NameFromContext c) wd m b s)"
  proof -
    let ?s4 = "emit (EvProxyConnect (proxy_params w m b)) ?s3"
    have d4: "dials ?s4 = dials s" by simp
    have r: "Retry (probe_fn w) 10 ?s4
       = (None, ?s4\<lparr>trace := trace ?s4 @ probe_events (Suc k), dials := dials ?s4 + Suc k\<rparr>)"
      unfolding Retry_def using Retry_loop_success[of k 10 w ?s4 None] assms(4,5,6)
      unfolding d4 by blast
    show ?thesis using r
      by (simp add: proxied_build_def Let_def proxy_params_def sync_and_build_fst)
  qed
  show "fst (NixSourceBuild w c wd s)
     = (case RunSSHCommand w b (builder_address w m) (build_command w (NameFromContext c)) of
          (resp, Some e) \<Rightarrow> (None, Some (Errorf [] e))
        | (resp, None) \<Rightarrow>
            (Some \<lparr>img_ID = NewDeploymentTag w (NameFromContext c) [],
                   img_Tag = NewDeploymentTag w (NameFromContext c) [], img_Size = 10\<rparr>, None))"
    unfolding n with_defer_fst p sync_and_build_fst ..
qed

text \<open>
  Claim C4. In the Remote Sync and Build Executor a failure of the external
  synchronization process does not abort the run. The result of \<^verbatim>\<open>NixSourceBuild\<close>
  is the same whatever the synchronization process returns. And whenever the
  synchronization step is reached (the builder, the agent and the tunnel are
  established and the forwarded port answers the \<open>k\<close>-th dial) and the process fails
  with \<open>e\<close>, the run prints the wrapped failure, goes on to build the remote command,
  executes it on the builder, and returns what the remote build gives.
\<close>

theorem sync_failure_does_not_abort:
  "fst (NixSourceBuild (w\<lparr>ExecRun := r\<rparr>) c wd s) = fst (NixSourceBuild w c wd s)
   \<and> (RemoteBuilderMachine w (NameFromContext c) = Inr (m, b) \<and> Establish w = None
        \<and> ConnectToTunnel w (app_OrganizationSlug b) = None
        \<and> k < 10 \<and> DialTimeout w (dials s + k) = None
        \<and> (\<forall>j<k. DialTimeout w (dials s + j) \<noteq> None)
        \<and> ExecRun w (rsync_command wd) = Some e
      \<longrightarrow> new_events s (snd (NixSourceBuild w c wd s))
           = [EvRemoteBuilderMachine (NameFromContext c), EvEstablish,
              EvConnectToTunnel (app_OrganizationSlug b), EvProxyConnect (proxy_params w m b)]
             @ probe_events (Suc k)
             @ [EvFprintf (''Proxy connected. Syncing source code to the remote builder ''
                             @ app_Name b @ [CHR 0x0A]),
                EvExecRun (rsync_command wd),
                EvPrintlnError (Errorf ''code rsync failed: '' e),
                EvPrintln ''Running Nix build...'',
                EvRunSSHCommand b (builder_address w m) (build_command w (NameFromContext c))]
             @ response_events
                 (RunSSHCommand w b (builder_address w m) (build_command w (NameFromContext c)))
             @ [EvCancelProxy]
         \<and> fst (NixSourceBuild w c wd s)
           = (case RunSSHCommand w b (builder_address w m)
                     (build_command w (NameFromContext c)) of
                (resp, Some e) \<Rightarrow> (None, Some (Errorf [] e))
              | (resp, None) \<Rightarrow>
                  (Some \<lparr>img_ID = NewDeploymentTag w (NameFromContext c) [],
                         img_Tag = NewDeploymentTag w (NameFromContext c) [],
                         img_Size = 10\<rparr>, None)))"
proof (intro conjI impI)
  show "fst (NixSourceBuild (w\<lparr>ExecRun := r\<rparr>) c wd s) = fst (NixSourceBuild w c wd s)"
    by (rule NixSourceBuild_ExecRun)
next
  assume h: "RemoteBuilderMachine w (NameFromContext c) = Inr (m, b) \<and> Establish w = None
        \<and> ConnectToTunnel w (app_OrganizationSlug b) = None
        \<and> k < 10 \<and> DialTimeout w (dials s + k) = None
        \<and> (\<forall>j<k. DialTimeout w (dials s + j) \<noteq> None)
        \<and> ExecRun w (rsync_command wd) = Some e"
  then have a: "RemoteBuilderMachine w (NameFromContext c) = Inr (m, b)" "Establish w = None"
    "ConnectToTunnel w (app_OrganizationSlug b) = None" "k < 10"
    "DialTimeout w (dials s + k) = None" "\<forall>j<k. DialTimeout w (dials s + j) \<noteq> None"
    and e: "ExecRun w (rsync_command wd) = Some e"
    by blast+
  show "new_events s (snd (NixSourceBuild w c wd s))
           = [EvRemoteBuilderMachine (NameFromContext c), EvEstablish,
              EvConnectToTunnel (app_OrganizationSlug b), EvProxyConnect (proxy_params w m b)]
             @ probe_events (Suc k)
             @ [EvFprintf (''Proxy connected. Syncing source code to the remote builder ''
                             @ app_Name b @ [CHR 0x0A]),
                EvExecRun (rsync_command wd),
                EvPrintlnError (Errorf ''code rsync failed: '' e),
                EvPrintln ''Running Nix build...'',
                EvRunSSHCommand b (builder_address w m) (build_command w (NameFromContext c))]
             @ response_events
                 (RunSSHCommand w b (builder_address w m) (build_command w (NameFromContext c)))
             @ [EvCancelProxy]"
    by (rule new_events_eq) (simp add: NixSourceBuild_ready(1)[OF a] e)
  show "fst (NixSourceBuild w c wd s)
           = (case RunSSHCommand w b (builder_address w m)
                     (build_command w (NameFromContext c)) of
                (resp, Some e) \<Rightarrow> (None, Some (Errorf [] e))
              | (resp, None) \<Rightarrow>
                  (Some \<lparr>img_ID = NewDeploymentTag w (NameFromContext c) [],
                         img_Tag = NewDeploymentTag w (NameFromContext c) [],
                         img_Size = 10\<rparr>, None))"
    by (rule NixSourceBuild_ready(2)[OF a])
qed


theorem sync_failure_does_not_abort_witness:
  "RemoteBuilderMachine world_sync_fails (NameFromContext ctx_nix) = Inr (1, builder0)
   \<and> Establish world_sync_fails = None
   \<and> ConnectToTunnel world_sync_fails (app_OrganizationSlug builder0) = None
   \<and> (2::nat) < 10 \<and> DialTimeout world_sync_fails (dials state0 + 2) = None
   \<and> DialTimeout world_sync_fails (dials state0 + 0) \<noteq> None
   \<and> DialTimeout world_sync_fails (dials state0 + 1) \<noteq> None
   \<and> ExecRun world_sync_fails (rsync_command ''/home/dev/shop'') = Some (Foreign ''exit status 23'')
   \<and> new_events state0 (snd (NixSourceBuild world_sync_fails ctx_nix ''/home/dev/shop'' state0))
       = [EvRemoteBuilderMachine ''shop'', EvEstablish, EvConnectToTunnel ''personal'',
          EvProxyConnect (proxy_params world_sync_fails 1 builder0)]
         @ probe_events 3
         @ [EvFprintf (''Proxy connected. Syncing source code to the remote builder fly-builder-red''
                         @ [CHR 0x0A]),
            EvExecRun (rsync_command ''/home/dev/shop''),
            EvPrintlnError (Errorf ''code rsync failed: '' (Foreign ''exit status 23'')),
            EvPrintln ''Running Nix build...'',
            EvRunSSHCommand builder0 ''[fdaa:0:1::3]''
              ''/data/source/shop/bin/build.sh token registry.fly.io/shop:deployment-1'',
            EvPrintln ''built'', EvCancelProxy]
   \<and> fst (NixSourceBuild world_sync_fails ctx_nix ''/home/dev/shop'' state0)
       = (Some \<lparr>img_ID = ''registry.fly.io/shop:deployment-1'',
                img_Tag = ''registry.fly.io/shop:deployment-1'', img_Size = 10\<rparr>, None)
   \<and> fst (NixSourceBuild world_sync_fails ctx_nix ''/home/dev/shop'' state0)
       = fst (NixSourceBuild world0 ctx_nix ''/home/dev/shop'' state0)"
proof -
  have a: "RemoteBuilderMachine world_sync_fails (NameFromContext ctx_nix) = Inr (1, builder0)"
    by (simp add: world_sync_fails_def world0_def)
  have b: "Establish world_sync_fails = None"
    by (simp add: world_sync_fails_def world0_def)
  have c: "ConnectToTunnel world_sync_fails (app_OrganizationSlug builder0) = None"
    by (simp add: world_sync_fails_def world0_def)
  have d: "(2::nat) < 10" by simp
  have e: "DialTimeout world_sync_fails (dials state0 + 2) = None"
    by (simp add: world_sync_fails_def world0_def state0_def)
  have f0: "DialTimeout world_sync_fails (dials state0 + 0) \<noteq> None"
    and f1: "DialTimeout world_sync_fails (dials state0 + 1) \<noteq> None"
    by (simp_all add: world_sync_fails_def world0_def state0_def)
  have f: "\<forall>j<2. DialTimeout world_sync_fails (dials state0 + j) \<noteq> None"
    by (simp add: world_sync_fails_def world0_def state0_def)
  have g: "ExecRun world_sync_fails (rsync_command ''/home/dev/shop'')
             = Some (Foreign ''exit status 23'')"
    by (simp add: world_sync_fails_def)
  have w: "world_sync_fails = world0\<lparr>ExecRun := (\<lambda>cmd. Some (Foreign ''exit status 23''))\<rparr>"
    by (simp add: world_sync_fails_def)
  note t = sync_failure_does_not_abort[where w = world_sync_fails and c = ctx_nix
      and wd = "''/home/dev/shop''" and s = state0 and m = 1 and b = builder0 and k = 2
      and e = "Foreign ''exit status 23''"]
  have ev: "new_events state0 (snd (NixSourceBuild world_sync_fails ctx_nix ''/home/dev/shop'' state0))
       = [EvRemoteBuilderMachine ''shop'', EvEstablish, EvConnectToTunnel ''personal'',
          EvProxyConnect (proxy_params world_sync_fails 1 builder0)]
         @ probe_events 3
         @ [EvFprintf (''Proxy connected. Syncing source code to the remote builder fly-builder-red''
                         @ [CHR 0x0A]),
            EvExecRun (rsync_command ''/home/dev/shop''),
            EvPrintlnError (Errorf ''code rsync failed: '' (Foreign ''exit status 23'')),
            EvPrintln ''Running Nix build...'',
            EvRunSSHCommand builder0 ''[fdaa:0:1::3]''
              ''/data/source/shop/bin/build.sh token registry.fly.io/shop:deployment-1'',
            EvPrintln ''built'', EvCancelProxy]"
    using t a b c d e f g
    by (simp add: world_sync_fails_def world0_def ctx_nix_def ctx0_def builder0_def
        builder_address_def build_command_def response_events_def eval_nat_numeral)
  have res: "fst (NixSourceBuild world_sync_fails ctx_nix ''/home/dev/shop'' state0)
       = (Some \<lparr>img_ID = ''registry.fly.io/shop:deployment-1'',
                img_Tag = ''registry.fly.io/shop:deployment-1'', img_Size = 10\<rparr>, None)"
    using t a b c d e f g
    by (simp add: world_sync_fails_def world0_def ctx_nix_def ctx0_def builder0_def
        builder_address_def build_command_def)
  have ind: "fst (NixSourceBuild world_sync_fails ctx_nix ''/home/dev/shop'' state0)
       = fst (NixSourceBuild world0 ctx_nix ''/home/dev/shop'' state0)"
    unfolding w
    using sync_failure_does_not_abort[where w = world0
        and r = "\<lambda>cmd. Some (Foreign ''exit status 23'')"
        and c = ctx_nix and wd = "''/home/dev/shop''" and s = state0] by blast
  show ?thesis using a b c d e f0 f1 g ev res ind by blast
qed

section \<open>The cancellation of the tunnel proxy\<close>

lemma probe_events_quiet: "e \<in> set (probe_events n) \<Longrightarrow> \<not> is_proxy_event e"
  by (induction n) (auto simp add: probe_events_Suc probe_events_0)

lemma Retry_trace:
  "\<exists>k. trace (snd (Retry (probe_fn w) 10 s)) = trace s @ probe_events k"
  using Retry_cases[of w s] by auto

lemma sync_and_build_quiet:
  "\<exists>ev. trace (snd (sync_and_build w n wd m b s)) = trace s @ ev
         \<and> (\<forall>e\<in>set ev. \<not> is_proxy_event e)"
  unfolding sync_and_build_trace
  by (auto simp add: response_events_def split: option.splits prod.splits)

lemma proxied_build_shape:
  "\<exists>ev. trace (snd (proxied_build w n wd m b s))
            = trace s @ EvProxyConnect (proxy_params w m b) # ev
         \<and> (\<forall>e\<in>set ev. \<not> is_proxy_event e)"
proof -
  let ?s1 = "emit (EvProxyConnect (proxy_params w m b)) s"
  obtain r s2 where r: "Retry (probe_fn w) 10 ?s1 = (r, s2)"
    by (cases "Retry (probe_fn w) 10 ?s1")
  obtain k where k: "trace s2 = trace ?s1 @ probe_events k"
    using Retry_trace[of w ?s1] r by auto
  show ?thesis
  proof (cases r)
    case (Some e)
    then have "trace (snd (proxied_build w n wd m b s)) = trace s2"
      using r by (simp add: proxied_build_def Let_def proxy_params_def)
    then show ?thesis using k probe_events_quiet by auto
  next
    case None
    let ?s3 = "emit (EvFprintf (''Proxy connected. Syncing source code to the remote builder ''
                                   @ app_Name b @ [CHR 0x0A])) s2"
    have p: "snd (proxied_build w n wd m b s) = snd (sync_and_build w n wd m b ?s3)"
      using r None by (simp add: proxied_build_def Let_def proxy_params_def)
    obtain ev where ev: "trace (snd (sync_and_build w n wd m b ?s3)) = trace ?s3 @ ev"
      "\<forall>e\<in>set ev. \<not> is_proxy_event e"
      using sync_and_build_quiet[of w n wd m b ?s3] by blast
    have "trace (snd (proxied_build w n wd m b s))
            = trace s @ EvProxyConnect (proxy_params w m b)
               # (probe_events k @ EvFprintf (''Proxy connected. Syncing source code to the remote builder ''
                                   @ app_Name b @ [CHR 0x0A]) # ev)"
      unfolding p ev(1) using k by simp
    moreover have "\<forall>e\<in>set (probe_events k @ EvFprintf (''Proxy connected. Syncing source code to the remote builder ''
                                   @ app_Name b @ [CHR 0x0A]) # ev). \<not> is_proxy_event e"
      using ev(2) probe_events_quiet by auto
    ultimately show ?thesis by blast
  qed
qed

lemma NixSourceBuild_shape:
  "(\<exists>ev. trace (snd (NixSourceBuild w c wd s)) = trace s @ ev
         \<and> (\<forall>e\<in>set ev. \<not> is_proxy_event e))
   \<or> (\<exists>pre p post. trace (snd (NixSourceBuild w c wd s))
                      = trace s @ pre @ EvProxyConnect p # post @ [EvCancelProxy]
         \<and> (\<forall>e\<in>set pre. \<not> is_proxy_event e) \<and> (\<forall>e\<in>set post. \<not> is_proxy_event e))"
proof (cases "RemoteBuilderMachine w (NameFromContext c)")
  case (Inl e)
  then have "trace (snd (NixSourceBuild w c wd s)) = trace s @ [EvRemoteBuilderMachine (NameFromContext c)]"
    by (simp add: NixSourceBuild_def Let_def)
  then show ?thesis by auto
next
  case (Inr mb)
  obtain m b where mb: "mb = (m, b)" by (cases mb)
  show ?thesis
  proof (cases "Establish w")
    case (Some e)
    then have "trace (snd (NixSourceBuild w c wd s))
        = trace s @ [EvRemoteBuilderMachine (NameFromContext c), EvEstablish]"
      using Inr mb by (simp add: NixSourceBuild_def Let_def)
    then show ?thesis by auto
  next
    case None
    show ?thesis
    proof (cases "ConnectToTunnel w (app_OrganizationSlug b)")
      case (Some e)
      then have "trace (snd (NixSourceBuild w c wd s))
        = trace s @ [EvRemoteBuilderMachine (NameFromContext c), EvEstablish,
                     EvConnectToTunnel (app_OrganizationSlug b)]"
        using Inr mb None by (simp add: NixSourceBuild_def Let_def)
      then show ?thesis by auto
    next
      case nc: None
      let ?s3 = "emit (EvConnectToTunnel (app_OrganizationSlug b))
               (emit EvEstablish (emit (EvRemoteBuilderMachine (NameFromContext c)) s))"
      have n: "NixSourceBuild w c wd s
         = with_defer (emit EvCancelProxy) (proxied_build w (NameFromContext c) wd m b) ?s3"
        using Inr mb None nc by (simp add: NixSourceBuild_def Let_def)
      obtain ev where ev: "trace (snd (proxied_build w (NameFromContext c) wd m b ?s3))
            = trace ?s3 @ EvProxyConnect (proxy_params w m b) # ev"
         "\<forall>e\<in>set ev. \<not> is_proxy_event e"
        using proxied_build_shape[of w "NameFromContext c" wd m b ?s3] by blast
      have "trace (snd (NixSourceBuild w c wd s))
          = trace s @ [EvRemoteBuilderMachine (NameFromContext c), EvEstablish,
                     EvConnectToTunnel (app_OrganizationSlug b)]
              @ EvProxyConnect (proxy_params w m b) # ev @ [EvCancelProxy]"
        unfolding n with_defer_trace ev(1) by simp
      moreover have "\<forall>e\<in>set [EvRemoteBuilderMachine (NameFromContext c), EvEstablish,
                     EvConnectToTunnel (app_OrganizationSlug b)]. \<not> is_proxy_event e"
        by simp
      ultimately show ?thesis using ev(2) by blast
    qed
  qed
qed


lemma mergeBuildArgs_trace [simp]: "trace (snd (mergeBuildArgs w c args s)) = trace s"
  by (simp add: mergeBuildArgs_def make_map_def split: option.splits sum.splits prod.splits)

lemma determineImage_nix_state:
  "flag_nix c \<Longrightarrow> snd (determineImage w c cfg s) = snd (NixSourceBuild w c (WorkingDirectory c) s)"
  by (simp add: determineImage_def split: prod.splits option.splits)

lemma determineImage_docker_quiet:
  assumes "\<not> flag_nix c"
  shows "\<exists>ev. trace (snd (determineImage w c cfg s)) = trace s @ ev
         \<and> (\<forall>e\<in>set ev. \<not> is_proxy_event e)"
proof -
  obtain ref e where f: "fetchImageRef c cfg = (ref, e)" by (cases "fetchImageRef c cfg")
  have e: "e = None" using f fetchImageRef_no_error[of c cfg] by simp
  show ?thesis
  proof (cases "ref = []")
    case False
    then have "trace (snd (determineImage w c cfg s))
        = trace s @ [EvResolveReference (resolver_of c) (refOptions_of c ref)]"
      using assms f e by (simp add: determineImage_def Let_def resolver_of_def refOptions_of_def)
    then show ?thesis by auto
  next
    case True
    show ?thesis
    proof (cases cfg)
      case None
      then have "trace (snd (determineImage w c cfg s)) = trace s @ []"
        using assms f e True by (simp add: determineImage_def Let_def)
      then show ?thesis by auto
    next
      case (Some cf)
      let ?b = "case Config_Build cf of None \<Rightarrow> new_Build | Some b \<Rightarrow> b"
      obtain ba me s1 where m: "mergeBuildArgs w c (Build_Args ?b) s = ((ba, me), s1)"
        by (cases "mergeBuildArgs w c (Build_Args ?b) s") auto
      have t: "trace s1 = trace s" using mergeBuildArgs_trace[of w c "Build_Args ?b" s] m by simp
      obtain pth pe where p: "resolveDockerfilePath w c cf = (pth, pe)"
        by (cases "resolveDockerfilePath w c cf")
      have "trace (snd (determineImage w c cfg s)) = trace s @ []
            \<or> trace (snd (determineImage w c cfg s))
                = trace s @ [EvBuildImage (resolver_of c) (sourceBuildOptions c cf ?b ba pth)]"
        using assms f e True Some m t p
        by (cases me; cases pe)
           (simp_all add: determineImage_def Let_def resolver_of_def split: prod.splits)
      then show ?thesis by auto
    qed
  qed
qed

lemma determineImage_shape:
  "(\<exists>ev. trace (snd (determineImage w c cfg s)) = trace s @ ev
         \<and> (\<forall>e\<in>set ev. \<not> is_proxy_event e))
   \<or> (\<exists>pre p post. trace (snd (determineImage w c cfg s))
                      = trace s @ pre @ EvProxyConnect p # post @ [EvCancelProxy]
         \<and> (\<forall>e\<in>set pre. \<not> is_proxy_event e) \<and> (\<forall>e\<in>set post. \<not> is_proxy_event e))"
proof (cases "flag_nix c")
  case True
  show ?thesis
    unfolding determineImage_nix_state[OF True]
    by (rule NixSourceBuild_shape)
next
  case False
  then show ?thesis using determineImage_docker_quiet[of c w cfg s] by blast
qed

lemma is_ProxyConnect_proxy_event: "is_ProxyConnect e \<Longrightarrow> is_proxy_event e"
  by (cases e) simp_all

lemma quiet_counts:
  assumes "\<forall>e\<in>set ev. \<not> is_proxy_event e"
  shows "count_list ev EvCancelProxy = 0" and "filter is_ProxyConnect ev = []"
proof -
  have "EvCancelProxy \<notin> set ev" using assms by auto
  then show "count_list ev EvCancelProxy = 0" by simp
  have "\<not> is_ProxyConnect e" if "e \<in> set ev" for e
    using that assms is_ProxyConnect_proxy_event by blast
  then show "filter is_ProxyConnect ev = []" by (simp add: filter_empty_conv)
qed

lemma shape_counts:
  assumes "trace s1 = trace s @ ev \<and> (\<forall>e\<in>set ev. \<not> is_proxy_event e)
     \<or> (\<exists>pre p post. trace s1 = trace s @ pre @ EvProxyConnect p # post @ [EvCancelProxy]
         \<and> (\<forall>e\<in>set pre. \<not> is_proxy_event e) \<and> (\<forall>e\<in>set post. \<not> is_proxy_event e))"
  shows "(list_ex is_ProxyConnect (new_events s s1)
          \<longrightarrow> count_list (new_events s s1) EvCancelProxy = 1
              \<and> last (new_events s s1) = EvCancelProxy
              \<and> length (filter is_ProxyConnect (new_events s s1)) = 1)
       \<and> (\<not> list_ex is_ProxyConnect (new_events s s1)
          \<longrightarrow> count_list (new_events s s1) EvCancelProxy = 0)"
  using assms
proof (elim disjE exE conjE)
  assume t: "trace s1 = trace s @ ev" and q: "\<forall>e\<in>set ev. \<not> is_proxy_event e"
  have n: "new_events s s1 = ev" using t by (rule new_events_eq)
  show ?thesis unfolding n using quiet_counts[OF q]
    by (simp add: list_ex_iff filter_empty_conv)
next
  fix pre p post
  assume t: "trace s1 = trace s @ pre @ EvProxyConnect p # post @ [EvCancelProxy]"
    and q1: "\<forall>e\<in>set pre. \<not> is_proxy_event e" and q2: "\<forall>e\<in>set post. \<not> is_proxy_event e"
  have n: "new_events s s1 = pre @ EvProxyConnect p # post @ [EvCancelProxy]"
    using t by (rule new_events_eq)
  show ?thesis unfolding n using quiet_counts[OF q1] quiet_counts[OF q2]
    by simp
qed


lemma NixSourceBuild_started:
  assumes "RemoteBuilderMachine w (NameFromContext c) = Inr (m, b)"
    and "Establish w = None"
    and "ConnectToTunnel w (app_OrganizationSlug b) = None"
  shows "list_ex is_ProxyConnect (new_events s (snd (NixSourceBuild w c wd s)))"
proof -
  let ?s3 = "emit (EvConnectToTunnel (app_OrganizationSlug b))
               (emit EvEstablish (emit (EvRemoteBuilderMachine (NameFromContext c)) s))"
  have n: "NixSourceBuild w c wd s
     = with_defer (emit EvCancelProxy) (proxied_build w (NameFromContext c) wd m b) ?s3"
    using assms by (simp add: NixSourceBuild_def Let_def)
  obtain ev where ev: "trace (snd (proxied_build w (NameFromContext c) wd m b ?s3))
        = trace ?s3 @ EvProxyConnect (proxy_params w m b) # ev"
    using proxied_build_shape[of w "NameFromContext c" wd m b ?s3] by blast
  have "trace (snd (NixSourceBuild w c wd s))
      = trace s @ ([EvRemoteBuilderMachine (NameFromContext c), EvEstablish,
                 EvConnectToTunnel (app_OrganizationSlug b)]
          @ EvProxyConnect (proxy_params w m b) # ev @ [EvCancelProxy])"
    unfolding n with_defer_trace ev by simp
  then have "new_events s (snd (NixSourceBuild w c wd s))
      = [EvRemoteBuilderMachine (NameFromContext c), EvEstablish,
                 EvConnectToTunnel (app_OrganizationSlug b)]
          @ EvProxyConnect (proxy_params w m b) # ev @ [EvCancelProxy]"
    by (rule new_events_eq)
  then show ?thesis by simp
qed

text \<open>
  Claim C5. Whenever image acquisition starts the background proxy of the remote
  tunnel build, the proxy's cancellation handle is called exactly once before the
  stage returns, on every exit path: among the events the stage adds to the trace
  there is then one start of the proxy, one call of the handle, and that call is the
  last event. When the proxy is not started the handle is not called. This holds for
  \<^verbatim>\<open>determineImage\<close> on every input, and for \<^verbatim>\<open>NixSourceBuild\<close> itself.
\<close>

theorem cancelProxy_exactly_once:
  "(list_ex is_ProxyConnect (new_events s (snd (determineImage w c cfg s)))
      \<longrightarrow> count_list (new_events s (snd (determineImage w c cfg s))) EvCancelProxy = 1
          \<and> last (new_events s (snd (determineImage w c cfg s))) = EvCancelProxy
          \<and> length (filter is_ProxyConnect (new_events s (snd (determineImage w c cfg s)))) = 1)
   \<and> (\<not> list_ex is_ProxyConnect (new_events s (snd (determineImage w c cfg s)))
      \<longrightarrow> count_list (new_events s (snd (determineImage w c cfg s))) EvCancelProxy = 0)
   \<and> (list_ex is_ProxyConnect (new_events s (snd (NixSourceBuild w c wd s)))
      \<longrightarrow> count_list (new_events s (snd (NixSourceBuild w c wd s))) EvCancelProxy = 1
          \<and> last (new_events s (snd (NixSourceBuild w c wd s))) = EvCancelProxy
          \<and> length (filter is_ProxyConnect (new_events s (snd (NixSourceBuild w c wd s)))) = 1)
   \<and> (\<not> list_ex is_ProxyConnect (new_events s (snd (NixSourceBuild w c wd s)))
      \<longrightarrow> count_list (new_events s (snd (NixSourceBuild w c wd s))) EvCancelProxy = 0)"
proof -
  have a: "(list_ex is_ProxyConnect (new_events s (snd (determineImage w c cfg s)))
      \<longrightarrow> count_list (new_events s (snd (determineImage w c cfg s))) EvCancelProxy = 1
          \<and> last (new_events s (snd (determineImage w c cfg s))) = EvCancelProxy
          \<and> length (filter is_ProxyConnect (new_events s (snd (determineImage w c cfg s)))) = 1)
   \<and> (\<not> list_ex is_ProxyConnect (new_events s (snd (determineImage w c cfg s)))
      \<longrightarrow> count_list (new_events s (snd (determineImage w c cfg s))) EvCancelProxy = 0)"
    using determineImage_shape[of w c cfg s]
  proof (elim disjE exE)
    fix ev
    assume "trace (snd (determineImage w c cfg s)) = trace s @ ev
         \<and> (\<forall>e\<in>set ev. \<not> is_proxy_event e)"
    then show ?thesis by (intro shape_counts[of _ s ev]) blast
  next
    fix pre p post
    assume "trace (snd (determineImage w c cfg s))
                      = trace s @ pre @ EvProxyConnect p # post @ [EvCancelProxy]
         \<and> (\<forall>e\<in>set pre. \<not> is_proxy_event e) \<and> (\<forall>e\<in>set post. \<not> is_proxy_event e)"
    then show ?thesis by (intro shape_counts[of _ s "[]"]) blast
  qed
  have b: "(list_ex is_ProxyConnect (new_events s (snd (NixSourceBuild w c wd s)))
      \<longrightarrow> count_list (new_events s (snd (NixSourceBuild w c wd s))) EvCancelProxy = 1
          \<and> last (new_events s (snd (NixSourceBuild w c wd s))) = EvCancelProxy
          \<and> length (filter is_ProxyConnect (new_events s (snd (NixSourceBuild w c wd s)))) = 1)
   \<and> (\<not> list_ex is_ProxyConnect (new_events s (snd (NixSourceBuild w c wd s)))
      \<longrightarrow> count_list (new_events s (snd (NixSourceBuild w c wd s))) EvCancelProxy = 0)"
    using NixSourceBuild_shape[of w c wd s]
  proof (elim disjE exE)
    fix ev
    assume "trace (snd (NixSourceBuild w c wd s)) = trace s @ ev
         \<and> (\<forall>e\<in>set ev. \<not> is_proxy_event e)"
    then show ?thesis by (intro shape_counts[of _ s ev]) blast
  next
    fix pre p post
    assume "trace (snd (NixSourceBuild w c wd s))
                      = trace s @ pre @ EvProxyConnect p # post @ [EvCancelProxy]
         \<and> (\<forall>e\<in>set pre. \<not> is_proxy_event e) \<and> (\<forall>e\<in>set post. \<not> is_proxy_event e)"
    then show ?thesis by (intro shape_counts[of _ s "[]"]) blast
  qed
  show ?thesis using a b by blast
qed


lemma nix_fixture_started:
  assumes "RemoteBuilderMachine w = RemoteBuilderMachine world0" "Establish w = Establish world0"
    "ConnectToTunnel w = ConnectToTunnel world0"
  shows "list_ex is_ProxyConnect
           (new_events state0 (snd (determineImage w ctx_nix (Some config0) state0)))"
proof -
  have n: "flag_nix ctx_nix" by (simp add: ctx_nix_def)
  have a: "RemoteBuilderMachine w (NameFromContext ctx_nix) = Inr (1, builder0)"
    "Establish w = None" "ConnectToTunnel w (app_OrganizationSlug builder0) = None"
    using assms by (simp_all add: world0_def)
  show ?thesis
    unfolding determineImage_nix_state[OF n] by (rule NixSourceBuild_started[OF a])
qed

theorem cancelProxy_exactly_once_witness:
  "list_ex is_ProxyConnect
     (new_events state0 (snd (determineImage world0 ctx_nix (Some config0) state0)))
   \<and> count_list (new_events state0 (snd (determineImage world0 ctx_nix (Some config0) state0)))
        EvCancelProxy = 1
   \<and> last (new_events state0 (snd (determineImage world0 ctx_nix (Some config0) state0)))
        = EvCancelProxy
   \<and> list_ex is_ProxyConnect
       (new_events state0 (snd (determineImage world_port_closed ctx_nix (Some config0) state0)))
   \<and> count_list
        (new_events state0 (snd (determineImage world_port_closed ctx_nix (Some config0) state0)))
        EvCancelProxy = 1
   \<and> list_ex is_ProxyConnect
       (new_events state0 (snd (determineImage world_sync_fails ctx_nix (Some config0) state0)))
   \<and> count_list
        (new_events state0 (snd (determineImage world_sync_fails ctx_nix (Some config0) state0)))
        EvCancelProxy = 1
   \<and> list_ex is_ProxyConnect
       (new_events state0 (snd (determineImage world_build_fails ctx_nix (Some config0) state0)))
   \<and> count_list
        (new_events state0 (snd (determineImage world_build_fails ctx_nix (Some config0) state0)))
        EvCancelProxy = 1
   \<and> \<not> list_ex is_ProxyConnect
         (new_events state0 (snd (determineImage world0 ctx0 (Some config0) state0)))
   \<and> count_list (new_events state0 (snd (determineImage world0 ctx0 (Some config0) state0)))
        EvCancelProxy = 0"
proof -
  have p0: "list_ex is_ProxyConnect
     (new_events state0 (snd (determineImage world0 ctx_nix (Some config0) state0)))"
    by (rule nix_fixture_started) simp_all
  have p1: "list_ex is_ProxyConnect
     (new_events state0 (snd (determineImage world_port_closed ctx_nix (Some config0) state0)))"
    by (rule nix_fixture_started) (simp_all add: world_port_closed_def)
  have p2: "list_ex is_ProxyConnect
     (new_events state0 (snd (determineImage world_sync_fails ctx_nix (Some config0) state0)))"
    by (rule nix_fixture_started) (simp_all add: world_sync_fails_def)
  have p3: "list_ex is_ProxyConnect
     (new_events state0 (snd (determineImage world_build_fails ctx_nix (Some config0) state0)))"
    by (rule nix_fixture_started) (simp_all add: world_build_fails_def)
  have q: "\<not> list_ex is_ProxyConnect
         (new_events state0 (snd (determineImage world0 ctx0 (Some config0) state0)))"
  proof -
    have "\<not> flag_nix ctx0" by (simp add: ctx0_def)
    from determineImage_docker_quiet[OF this, of world0 "Some config0" state0]
    obtain ev where ev: "trace (snd (determineImage world0 ctx0 (Some config0) state0))
        = trace state0 @ ev" "\<forall>e\<in>set ev. \<not> is_proxy_event e" by blast
    have "new_events state0 (snd (determineImage world0 ctx0 (Some config0) state0)) = ev"
      using ev(1) by (rule new_events_eq)
    then show ?thesis using quiet_counts(2)[OF ev(2)] by (simp add: list_ex_iff filter_empty_conv)
  qed
  show ?thesis
    using p0 p1 p2 p3 q
      cancelProxy_exactly_once[of state0 world0 ctx_nix "Some config0"]
      cancelProxy_exactly_once[of state0 world_port_closed ctx_nix "Some config0"]
      cancelProxy_exactly_once[of state0 world_sync_fails ctx_nix "Some config0"]
      cancelProxy_exactly_once[of state0 world_build_fails ctx_nix "Some config0"]
      cancelProxy_exactly_once[of state0 world0 ctx0 "Some config0"]
    by blast
qed

section \<open>The short-circuits and the dispatch of the controller\<close>

lemma stage_DeployImage: "is_DeployImage e = (stage e = 2)"
  by (cases e) simp_all

lemma stage_wait: "is_wait e = (3 \<le> stage e)"
  by (cases e) simp_all

lemma stage_WatchDeployment: "is_WatchDeployment e = (stage e = 4)"
  by (cases e) simp_all

lemma probe_events_stage: "e \<in> set (probe_events n) \<Longrightarrow> stage e = 1"
  by (induction n) (auto simp add: probe_events_Suc probe_events_0)

lemma sync_and_build_stage:
  "\<exists>ev. trace (snd (sync_and_build w n wd m b s)) = trace s @ ev \<and> (\<forall>e\<in>set ev. stage e = 1)"
  unfolding sync_and_build_trace
  by (auto simp add: response_events_def split: option.splits prod.splits)

lemma proxied_build_stage:
  "\<exists>ev. trace (snd (proxied_build w n wd m b s)) = trace s @ ev \<and> (\<forall>e\<in>set ev. stage e = 1)"
proof -
  let ?s1 = "emit (EvProxyConnect (proxy_params w m b)) s"
  obtain r s2 where r: "Retry (probe_fn w) 10 ?s1 = (r, s2)"
    by (cases "Retry (probe_fn w) 10 ?s1")
  obtain k where k: "trace s2 = trace ?s1 @ probe_events k"
    using Retry_trace[of w ?s1] r by auto
  show ?thesis
  proof (cases r)
    case (Some e)
    then have "trace (snd (proxied_build w n wd m b s)) = trace s2"
      using r by (simp add: proxied_build_def Let_def proxy_params_def)
    then have "trace (snd (proxied_build w n wd m b s))
       = trace s @ (EvProxyConnect (proxy_params w m b) # probe_events k)" using k by simp
    moreover have "\<forall>e\<in>set (EvProxyConnect (proxy_params w m b) # probe_events k). stage e = 1"
      using probe_events_stage by auto
    ultimately show ?thesis by blast
  next
    case None
    let ?s3 = "emit (EvFprintf (''Proxy connected. Syncing source code to the remote builder ''
                                   @ app_Name b @ [CHR 0x0A])) s2"
    have p: "snd (proxied_build w n wd m b s) = snd (sync_and_build w n wd m b ?s3)"
      using r None by (simp add: proxied_build_def Let_def proxy_params_def)
    obtain ev where ev: "trace (snd (sync_and_build w n wd m b ?s3)) = trace ?s3 @ ev"
      "\<forall>e\<in>set ev. stage e = 1"
      using sync_and_build_stage[of w n wd m b ?s3] by blast
    have "trace (snd (proxied_build w n wd m b s))
            = trace s @ (EvProxyConnect (proxy_params w m b)
               # probe_events k @ EvFprintf (''Proxy connected. Syncing source code to the remote builder ''
                                   @ app_Name b @ [CHR 0x0A]) # ev)"
      unfolding p ev(1) using k by simp
    moreover have "\<forall>e\<in>set (EvProxyConnect (proxy_params w m b)
               # probe_events k @ EvFprintf (''Proxy connected. Syncing source code to the remote builder ''
                                   @ app_Name b @ [CHR 0x0A]) # ev). stage e = 1"
      using ev(2) probe_events_stage by auto
    ultimately show ?thesis by blast
  qed
qed

lemma NixSourceBuild_stage:
  "\<exists>ev. trace (snd (NixSourceBuild w c wd s)) = trace s @ ev \<and> (\<forall>e\<in>set ev. stage e = 1)"
proof (cases "RemoteBuilderMachine w (NameFromContext c)")
  case (Inl e)
  then have "trace (snd (NixSourceBuild w c wd s)) = trace s @ [EvRemoteBuilderMachine (NameFromContext c)]"
    by (simp add: NixSourceBuild_def Let_def)
  then show ?thesis by auto
next
  case (Inr mb)
  obtain m b where mb: "mb = (m, b)" by (cases mb)
  show ?thesis
  proof (cases "Establish w")
    case (Some e)
    then have "trace (snd (NixSourceBuild w c wd s))
        = trace s @ [EvRemoteBuilderMachine (NameFromContext c), EvEstablish]"
      using Inr mb by (simp add: NixSourceBuild_def Let_def)
    then show ?thesis by auto
  next
    case None
    show ?thesis
    proof (cases "ConnectToTunnel w (app_OrganizationSlug b)")
      case (Some e)
      then have "trace (snd (NixSourceBuild w c wd s))
        = trace s @ [EvRemoteBuilderMachine (NameFromContext c), EvEstablish,
                     EvConnectToTunnel (app_OrganizationSlug b)]"
        using Inr mb None by (simp add: NixSourceBuild_def Let_def)
      then show ?thesis by auto
    next
      case nc: None
      let ?s3 = "emit (EvConnectToTunnel (app_OrganizationSlug b))
               (emit EvEstablish (emit (EvRemoteBuilderMachine (NameFromContext c)) s))"
      have n: "NixSourceBuild w c wd s
         = with_defer (emit EvCancelProxy) (proxied_build w (NameFromContext c) wd m b) ?s3"
        using Inr mb None nc by (simp add: NixSourceBuild_def Let_def)
      obtain ev where ev: "trace (snd (proxied_build w (NameFromContext c) wd m b ?s3))
            = trace ?s3 @ ev" "\<forall>e\<in>set ev. stage e = 1"
        using proxied_build_stage[of w "NameFromContext c" wd m b ?s3] by blast
      have "trace (snd (NixSourceBuild w c wd s))
          = trace s @ ([EvRemoteBuilderMachine (NameFromContext c), EvEstablish,
                     EvConnectToTunnel (app_OrganizationSlug b)] @ ev @ [EvCancelProxy])"
        unfolding n with_defer_trace ev(1) by simp
      moreover have "\<forall>e\<in>set ([EvRemoteBuilderMachine (NameFromContext c), EvEstablish,
                     EvConnectToTunnel (app_OrganizationSlug b)] @ ev @ [EvCancelProxy]). stage e = 1"
        using ev(2) by auto
      ultimately show ?thesis by blast
    qed
  qed
qed

lemma determineImage_stage:
  "\<exists>ev. trace (snd (determineImage w c cfg s)) = trace s @ ev \<and> (\<forall>e\<in>set ev. stage e = 1)"
proof (cases "flag_nix c")
  case True
  show ?thesis unfolding determineImage_nix_state[OF True] by (rule NixSourceBuild_stage)
next
  case False
  obtain ref e where f: "fetchImageRef c cfg = (ref, e)" by (cases "fetchImageRef c cfg")
  have e: "e = None" using f fetchImageRef_no_error[of c cfg] by simp
  show ?thesis
  proof (cases "ref = []")
    case ne: False
    then have "trace (snd (determineImage w c cfg s))
        = trace s @ [EvResolveReference (resolver_of c) (refOptions_of c ref)]"
      using False f e by (simp add: determineImage_def Let_def resolver_of_def refOptions_of_def)
    then show ?thesis by auto
  next
    case True
    show ?thesis
    proof (cases cfg)
      case None
      then have "trace (snd (determineImage w c cfg s)) = trace s @ []"
        using False f e True by (simp add: determineImage_def Let_def)
      then show ?thesis by auto
    next
      case (Some cf)
      let ?b = "case Config_Build cf of None \<Rightarrow> new_Build | Some b \<Rightarrow> b"
      obtain ba me s1 where m: "mergeBuildArgs w c (Build_Args ?b) s = ((ba, me), s1)"
        by (cases "mergeBuildArgs w c (Build_Args ?b) s") auto
      have t: "trace s1 = trace s" using mergeBuildArgs_trace[of w c "Build_Args ?b" s] m by simp
      obtain pth pe where p: "resolveDockerfilePath w c cf = (pth, pe)"
        by (cases "resolveDockerfilePath w c cf")
      have "trace (snd (determineImage w c cfg s)) = trace s @ []
            \<or> trace (snd (determineImage w c cfg s))
                = trace s @ [EvBuildImage (resolver_of c) (sourceBuildOptions c cf ?b ba pth)]"
        using False f e True Some m t p
        by (cases me; cases pe)
           (simp_all add: determineImage_def Let_def resolver_of_def split: prod.splits)
      then show ?thesis by auto
    qed
  qed
qed

lemma determineAppConfig_stage:
  "\<exists>ev. trace (snd (determineAppConfig w c s)) = trace s @ ev \<and> (\<forall>e\<in>set ev. stage e = 0)"
proof -
  have "trace (snd (determineAppConfig w c s)) = trace s @ []
      \<or> trace (snd (determineAppConfig w c s)) = trace s @ [EvGetConfig (NameFromContext c)]"
    by (simp add: determineAppConfig_def split: option.splits sum.splits)
  then show ?thesis by auto
qed

lemma createRelease_stage:
  "\<exists>ev. trace (snd (createRelease w c cfg img s)) = trace s @ ev \<and> (\<forall>e\<in>set ev. stage e = 2)"
proof -
  have "trace (snd (createRelease w c cfg img s)) = trace s @ []
      \<or> (\<exists>i. trace (snd (createRelease w c cfg img s)) = trace s @ [EvDeployImage i])"
    by (simp add: createRelease_def Let_def split: option.splits)
  then show ?thesis by auto
qed


lemma before_dispatch_stages:
  "\<exists>ev1 ev2 ev3 ev4.
      trace (snd (before_dispatch w c s)) = trace s @ ev1 @ ev2 @ ev3 @ ev4
      \<and> (\<forall>e\<in>set ev1. stage e = 0) \<and> (\<forall>e\<in>set ev2. stage e = 1)
      \<and> (\<forall>e\<in>set ev3. stage e = 2) \<and> (\<forall>e\<in>set ev4. stage e = 3)
      \<and> (flag_build_only c \<longrightarrow> ev3 = [] \<and> ev4 = [])
      \<and> (flag_detach c \<longrightarrow> ev4 = [])"
proof -
  obtain cfg e0 s1 where ac: "determineAppConfig w c s = ((cfg, e0), s1)"
    by (cases "determineAppConfig w c s") auto
  obtain ev1 where ev1: "trace s1 = trace s @ ev1" "\<forall>e\<in>set ev1. stage e = 0"
    using determineAppConfig_stage[of w c s] ac by auto
  obtain r s2 where di: "determineImage w c cfg s1 = (r, s2)"
    by (cases "determineImage w c cfg s1")
  obtain ev2 where ev2: "trace s2 = trace s1 @ ev2" "\<forall>e\<in>set ev2. stage e = 1"
    using determineImage_stage[of w c cfg s1] di by auto
  have stop1: ?thesis if "snd (before_dispatch w c s) = s1"
  proof -
    have "trace (snd (before_dispatch w c s)) = trace s @ ev1 @ [] @ [] @ []"
      using that ev1(1) by simp
    then show ?thesis using ev1(2) by (intro exI[of _ ev1] exI[of _ "[]"]) simp
  qed
  have stop2: ?thesis if "snd (before_dispatch w c s) = s2"
  proof -
    have "trace (snd (before_dispatch w c s)) = trace s @ ev1 @ ev2 @ [] @ []"
      using that ev1(1) ev2(1) by simp
    then show ?thesis using ev1(2) ev2(2)
      by (intro exI[of _ ev1] exI[of _ ev2] exI[of _ "[]"]) simp
  qed
  show ?thesis
  proof (cases e0)
    case (Some e)
    then have "snd (before_dispatch w c s) = s1" using ac by (simp add: before_dispatch_def)
    then show ?thesis by (rule stop1)
  next
    case None
    show ?thesis
    proof (cases "r = Panic \<or> (\<exists>img e. r = Return (img, Some e)) \<or> flag_build_only c")
      case True
      then have "snd (before_dispatch w c s) = s2" using ac None di
        by (cases r) (auto simp add: before_dispatch_def split: option.splits)
      then show ?thesis by (rule stop2)
    next
      case False
      then obtain img where r: "r = Return (img, None)" and nb: "\<not> flag_build_only c"
        by (cases r) auto
      obtain r3 s3 where cr: "createRelease w c cfg img s2 = (r3, s3)"
        by (cases "createRelease w c cfg img s2")
      obtain ev3 where ev3: "trace s3 = trace s2 @ ev3" "\<forall>e\<in>set ev3. stage e = 2"
        using createRelease_stage[of w c cfg img s2] cr by auto
      have stop4: ?thesis if "trace (snd (before_dispatch w c s)) = trace s3 @ ev4"
        "\<forall>e\<in>set ev4. stage e = 3" "flag_detach c \<longrightarrow> ev4 = []" for ev4
      proof -
        have "trace (snd (before_dispatch w c s)) = trace s @ ev1 @ ev2 @ ev3 @ ev4"
          using that(1) ev1(1) ev2(1) ev3(1) by simp
        then show ?thesis using ev1(2) ev2(2) ev3(2) that(2,3) nb
          by (intro exI[of _ ev1] exI[of _ ev2] exI[of _ ev3] exI[of _ ev4]) simp
      qed
      have b: "before_dispatch w c s
          = (case r3 of
               Panic \<Rightarrow> (Inl Panic, s3)
             | Return (Inl e) \<Rightarrow> (Inl (Return (Some e)), s3)
             | Return (Inr (release, releaseCommand)) \<Rightarrow>
                 if flag_detach c then (Inl (Return None), s3)
                 else
                   (case releaseCommand of
                      None \<Rightarrow> (Inr release, s3)
                    | Some rc \<Rightarrow>
                        (let s4 = emit (EvWatchReleaseCommand (rc_ID rc)) s3
                         in case WatchReleaseCommand w (rc_ID rc) of
                              Some e \<Rightarrow> (Inl (Return (Some e)), s4)
                            | None \<Rightarrow>
                                (let s5 = emit (EvGetAppRelease (NameFromContext c)
                                                  (rel_ID release)) s4
                                 in case GetAppRelease w (NameFromContext c)
                                           (rel_ID release) of
                                      Inl e \<Rightarrow> (Inl (Return (Some e)), s5)
                                    | Inr release2 \<Rightarrow> (Inr release2, s5)))))"
        using ac None di r nb cr by (simp add: before_dispatch_def)
      have "trace (snd (before_dispatch w c s)) = trace s3 @ []
          \<or> (\<not> flag_detach c \<and> (\<exists>i. trace (snd (before_dispatch w c s))
                 = trace s3 @ [EvWatchReleaseCommand i]))
          \<or> (\<not> flag_detach c \<and> (\<exists>i a j. trace (snd (before_dispatch w c s))
                 = trace s3 @ [EvWatchReleaseCommand i, EvGetAppRelease a j]))"
        unfolding b
        by (simp add: Let_def split: outcome.splits sum.splits prod.splits option.splits)
      then show ?thesis
      proof (elim disjE conjE exE)
        assume "trace (snd (before_dispatch w c s)) = trace s3 @ []"
        then show ?thesis by (rule stop4) simp_all
      next
        fix i assume "\<not> flag_detach c"
          "trace (snd (before_dispatch w c s)) = trace s3 @ [EvWatchReleaseCommand i]"
        then show ?thesis by (intro stop4[of "[EvWatchReleaseCommand i]"]) simp_all
      next
        fix i a j assume "\<not> flag_detach c"
          "trace (snd (before_dispatch w c s)) = trace s3 @ [EvWatchReleaseCommand i, EvGetAppRelease a j]"
        then show ?thesis
          by (intro stop4[of "[EvWatchReleaseCommand i, EvGetAppRelease a j]"]) simp_all
      qed
    qed
  qed
qed


lemma before_dispatch_stops:
  "flag_build_only c \<or> flag_detach c \<Longrightarrow> \<exists>r. fst (before_dispatch w c s) = Inl r"
  by (auto simp add: before_dispatch_def Let_def
      split: prod.splits option.splits outcome.splits sum.splits)

lemma run_stops:
  assumes "flag_build_only c \<or> flag_detach c"
  shows "snd (run w c s) = snd (before_dispatch w c s)"
proof -
  obtain r where "fst (before_dispatch w c s) = Inl r"
    using before_dispatch_stops[OF assms] by blast
  then show ?thesis by (cases "before_dispatch w c s") (simp add: run_def)
qed

lemma stops_events:
  assumes "flag_build_only c \<or> flag_detach c"
  shows "\<exists>ev. new_events s (snd (run w c s)) = ev
           \<and> (\<forall>e\<in>set ev. stage e \<le> 2)
           \<and> (flag_build_only c \<longrightarrow> (\<forall>e\<in>set ev. stage e \<le> 1))"
proof -
  obtain ev1 ev2 ev3 ev4 where t:
      "trace (snd (before_dispatch w c s)) = trace s @ ev1 @ ev2 @ ev3 @ ev4"
      "\<forall>e\<in>set ev1. stage e = 0" "\<forall>e\<in>set ev2. stage e = 1"
      "\<forall>e\<in>set ev3. stage e = 2" "\<forall>e\<in>set ev4. stage e = 3"
      "flag_build_only c \<longrightarrow> ev3 = [] \<and> ev4 = []"
      "flag_detach c \<longrightarrow> ev4 = []"
    using before_dispatch_stages[of w c s] by blast
  have e4: "ev4 = []" using t(6,7) assms by blast
  have n: "new_events s (snd (run w c s)) = ev1 @ ev2 @ ev3"
    unfolding run_stops[OF assms] using t(1) e4 by (intro new_events_eq) simp
  have "\<forall>e\<in>set (ev1 @ ev2 @ ev3). stage e \<le> 2" using t(2,3,4) by auto
  moreover have "flag_build_only c \<longrightarrow> (\<forall>e\<in>set (ev1 @ ev2 @ ev3). stage e \<le> 1)"
    using t(2,3,6) by auto
  ultimately show ?thesis using n by simp
qed

text \<open>
  Claim C7. With the build-only selector set, a run whose image acquisition succeeds
  returns no error in the very state image acquisition left, and no run with that
  selector submits a release or waits for anything. With the detach selector set (and
  build-only not set), a run whose release submission succeeds returns no error in the
  very state the submission left, right after the one call that submits the release;
  and no run with that selector waits for a release command, fetches the release again
  or watches the deployment.
\<close>

theorem short_circuits:
  "(flag_build_only c \<and> determineAppConfig w c s = ((cfg, None), s1)
      \<and> determineImage w c cfg s1 = (Return (img, None), s2)
     \<longrightarrow> run w c s = (Return None, s2))
   \<and> (flag_build_only c
     \<longrightarrow> \<not> list_ex is_DeployImage (new_events s (snd (run w c s)))
         \<and> \<not> list_ex is_wait (new_events s (snd (run w c s))))
   \<and> (flag_detach c \<and> \<not> flag_build_only c \<and> determineAppConfig w c s = ((cfg, None), s1)
      \<and> determineImage w c cfg s1 = (Return (img, None), s2)
      \<and> createRelease w c cfg img s2 = (Return (Inr (release, releaseCommand)), s3)
     \<longrightarrow> run w c s = (Return None, s3)
         \<and> (\<exists>i. trace s3 = trace s2 @ [EvDeployImage i]))
   \<and> (flag_detach c \<longrightarrow> \<not> list_ex is_wait (new_events s (snd (run w c s))))"
proof (intro conjI impI)
  assume "flag_build_only c \<and> determineAppConfig w c s = ((cfg, None), s1)
      \<and> determineImage w c cfg s1 = (Return (img, None), s2)"
  then show "run w c s = (Return None, s2)"
    by (simp add: run_def before_dispatch_def)
next
  assume b: "flag_build_only c"
  then obtain ev where ev: "new_events s (snd (run w c s)) = ev"
    "\<forall>e\<in>set ev. stage e \<le> 1"
    using stops_events[of c s w] by blast
  show "\<not> list_ex is_DeployImage (new_events s (snd (run w c s)))"
    unfolding ev(1) list_ex_iff stage_DeployImage using ev(2) by fastforce
  show "\<not> list_ex is_wait (new_events s (snd (run w c s)))"
    unfolding ev(1) list_ex_iff stage_wait using ev(2) by fastforce
next
  assume h: "flag_detach c \<and> \<not> flag_build_only c \<and> determineAppConfig w c s = ((cfg, None), s1)
      \<and> determineImage w c cfg s1 = (Return (img, None), s2)
      \<and> createRelease w c cfg img s2 = (Return (Inr (release, releaseCommand)), s3)"
  then show "run w c s = (Return None, s3)"
    by (simp add: run_def before_dispatch_def)
  show "\<exists>i. trace s3 = trace s2 @ [EvDeployImage i]"
    using h by (auto simp add: createRelease_def Let_def split: option.splits)
next
  assume d: "flag_detach c"
  then obtain ev where ev: "new_events s (snd (run w c s)) = ev"
    "\<forall>e\<in>set ev. stage e \<le> 2"
    using stops_events[of c s w] by blast
  show "\<not> list_ex is_wait (new_events s (snd (run w c s)))"
    unfolding ev(1) list_ex_iff stage_wait using ev(2) by fastforce
qed

lemma run_reaches_dispatch:
  assumes "before_dispatch w c s = (Inr release, s1)"
  shows "run w c s = dispatch w release s1"
  using assms by (simp add: run_def)

text \<open>
  Claim C8. For every run that reaches the dispatch with a release: if that release's
  deployment strategy is \<^verbatim>\<open>IMMEDIATE\<close> the run returns success in the state it reached
  the dispatch in, and its whole trace holds no call of the deployment watch;
  otherwise the run returns what the deployment watch answers for the release's
  evaluation id, and that call is the only deployment watch of the run. The release at
  the dispatch is the submitted one when there is no release command, and the one
  fetched again after the release command succeeded when there is one.
\<close>

theorem dispatch_on_strategy:
  "(before_dispatch w c s = (Inr release, s1)
     \<longrightarrow> run w c s
          = (if rel_DeploymentStrategy release = ''IMMEDIATE'' then (Return None, s1)
             else (Return (WatchDeployment w (rel_EvaluationID release)),
                   emit (EvWatchDeployment (rel_EvaluationID release)) s1))
        \<and> filter is_WatchDeployment (new_events s (snd (run w c s)))
          = (if rel_DeploymentStrategy release = ''IMMEDIATE'' then []
             else [EvWatchDeployment (rel_EvaluationID release)]))
   \<and> (\<not> flag_build_only c \<and> \<not> flag_detach c
      \<and> determineAppConfig w c s = ((cfg, None), s2)
      \<and> determineImage w c cfg s2 = (Return (img, None), s3)
      \<and> createRelease w c cfg img s3 = (Return (Inr (rel, rc)), s4)
     \<longrightarrow> (rc = None \<longrightarrow> before_dispatch w c s = (Inr rel, s4))
        \<and> (\<forall>cmd rel2. rc = Some cmd \<and> WatchReleaseCommand w (rc_ID cmd) = None
              \<and> GetAppRelease w (NameFromContext c) (rel_ID rel) = Inr rel2
            \<longrightarrow> fst (before_dispatch w c s) = Inr rel2))"
proof (intro conjI impI allI)
  assume h: "before_dispatch w c s = (Inr release, s1)"
  show r: "run w c s
          = (if rel_DeploymentStrategy release = ''IMMEDIATE'' then (Return None, s1)
             else (Return (WatchDeployment w (rel_EvaluationID release)),
                   emit (EvWatchDeployment (rel_EvaluationID release)) s1))"
    using h by (simp add: run_def dispatch_def)
  obtain ev1 ev2 ev3 ev4 where t:
      "trace (snd (before_dispatch w c s)) = trace s @ ev1 @ ev2 @ ev3 @ ev4"
      "\<forall>e\<in>set ev1. stage e = 0" "\<forall>e\<in>set ev2. stage e = 1"
      "\<forall>e\<in>set ev3. stage e = 2" "\<forall>e\<in>set ev4. stage e = 3"
    using before_dispatch_stages[of w c s] by blast
  have q: "filter is_WatchDeployment (ev1 @ ev2 @ ev3 @ ev4) = []"
    unfolding filter_empty_conv stage_WatchDeployment using t(2,3,4,5) by fastforce
  have t1: "trace s1 = trace s @ (ev1 @ ev2 @ ev3 @ ev4)" using t(1) h by simp
  show "filter is_WatchDeployment (new_events s (snd (run w c s)))
          = (if rel_DeploymentStrategy release = ''IMMEDIATE'' then []
             else [EvWatchDeployment (rel_EvaluationID release)])"
  proof (cases "rel_DeploymentStrategy release = ''IMMEDIATE''")
    case True
    then have "new_events s (snd (run w c s)) = ev1 @ ev2 @ ev3 @ ev4"
      unfolding r using t1 by (intro new_events_eq) simp
    then show ?thesis using True q by simp
  next
    case False
    then have "new_events s (snd (run w c s))
        = (ev1 @ ev2 @ ev3 @ ev4) @ [EvWatchDeployment (rel_EvaluationID release)]"
      unfolding r using t1 by (intro new_events_eq) simp
    then show ?thesis using False q by simp
  qed
next
  assume h: "\<not> flag_build_only c \<and> \<not> flag_detach c
      \<and> determineAppConfig w c s = ((cfg, None), s2)
      \<and> determineImage w c cfg s2 = (Return (img, None), s3)
      \<and> createRelease w c cfg img s3 = (Return (Inr (rel, rc)), s4)"
    and "rc = None"
  then show "before_dispatch w c s = (Inr rel, s4)"
    by (simp add: before_dispatch_def)
next
  fix cmd rel2
  assume h: "\<not> flag_build_only c \<and> \<not> flag_detach c
      \<and> determineAppConfig w c s = ((cfg, None), s2)
      \<and> determineImage w c cfg s2 = (Return (img, None), s3)
      \<and> createRelease w c cfg img s3 = (Return (Inr (rel, rc)), s4)"
    and "rc = Some cmd \<and> WatchReleaseCommand w (rc_ID cmd) = None
              \<and> GetAppRelease w (NameFromContext c) (rel_ID rel) = Inr rel2"
  then show "fst (before_dispatch w c s) = Inr rel2"
    by (simp add: before_dispatch_def Let_def)
qed


lemmas docker_defs =
  determineImage_def fetchImageRef_def mergeBuildArgs_def resolveDockerfilePath_def
  sourceBuildOptions_def Dockerfile_def DockerBuildTarget_def filepath_Dir_def
  filepath_Clean_def filepath_IsAbs_def filepath_Abs_def

lemmas input_defs =
  world0_def ctx0_def config0_def build0_def new_Build_def state0_def

lemma pair_of_fst: "fst p = a \<Longrightarrow> p = (a, snd p)"
  by (cases p) simp

theorem short_circuits_witness:
  "flag_build_only ctx_build_only
   \<and> determineAppConfig world0 ctx_build_only state0 = ((Some config0, None), state0)
   \<and> fst (determineImage world0 ctx_build_only (Some config0) state0)
       = Return (Some image0, None)
   \<and> run world0 ctx_build_only state0
       = (Return None, snd (determineImage world0 ctx_build_only (Some config0) state0))
   \<and> \<not> list_ex is_DeployImage (new_events state0 (snd (run world0 ctx_build_only state0)))
   \<and> \<not> list_ex is_wait (new_events state0 (snd (run world0 ctx_build_only state0)))
   \<and> flag_detach ctx_detach \<and> \<not> flag_build_only ctx_detach
   \<and> determineAppConfig world_command ctx_detach state0 = ((Some config0, None), state0)
   \<and> fst (determineImage world_command ctx_detach (Some config0) state0)
       = Return (Some image0, None)
   \<and> fst (createRelease world_command ctx_detach (Some config0) (Some image0)
             (snd (determineImage world_command ctx_detach (Some config0) state0)))
       = Return (Inr (release0, Some command0))
   \<and> run world_command ctx_detach state0
       = (Return None,
          snd (createRelease world_command ctx_detach (Some config0) (Some image0)
                 (snd (determineImage world_command ctx_detach (Some config0) state0))))
   \<and> \<not> list_ex is_wait (new_events state0 (snd (run world_command ctx_detach state0)))"
proof -
  have b: "flag_build_only ctx_build_only" by (simp add: ctx_build_only_def)
  have a1: "determineAppConfig world0 ctx_build_only state0 = ((Some config0, None), state0)"
    by (simp add: determineAppConfig_def ctx_build_only_def ctx0_def)
  have i1: "fst (determineImage world0 ctx_build_only (Some config0) state0)
       = Return (Some image0, None)"
    by (simp add: docker_defs input_defs ctx_build_only_def)
  note i1' = pair_of_fst[OF i1]
  have d: "flag_detach ctx_detach" and nb: "\<not> flag_build_only ctx_detach"
    by (simp_all add: ctx_detach_def ctx0_def)
  have a2: "determineAppConfig world_command ctx_detach state0 = ((Some config0, None), state0)"
    by (simp add: determineAppConfig_def ctx_detach_def ctx0_def)
  have i2: "fst (determineImage world_command ctx_detach (Some config0) state0)
       = Return (Some image0, None)"
    by (simp add: docker_defs input_defs world_command_def ctx_detach_def)
  note i2' = pair_of_fst[OF i2]
  have c2: "fst (createRelease world_command ctx_detach (Some config0) (Some image0)
             (snd (determineImage world_command ctx_detach (Some config0) state0)))
       = Return (Inr (release0, Some command0))"
    by (simp add: createRelease_def Let_def world_command_def)
  note c2' = pair_of_fst[OF c2]
  note t1 = short_circuits[where c = ctx_build_only and w = world0 and s = state0
      and cfg = "Some config0" and ?s1.0 = state0 and img = "Some image0"
      and ?s2.0 = "snd (determineImage world0 ctx_build_only (Some config0) state0)"]
  note t2 = short_circuits[where c = ctx_detach and w = world_command and s = state0
      and cfg = "Some config0" and ?s1.0 = state0 and img = "Some image0"
      and ?s2.0 = "snd (determineImage world_command ctx_detach (Some config0) state0)"
      and release = release0 and releaseCommand = "Some command0"
      and ?s3.0 = "snd (createRelease world_command ctx_detach (Some config0) (Some image0)
                 (snd (determineImage world_command ctx_detach (Some config0) state0)))"]
  have r1: "run world0 ctx_build_only state0
       = (Return None, snd (determineImage world0 ctx_build_only (Some config0) state0))"
    using t1 b a1 i1' by blast
  have n1: "\<not> list_ex is_DeployImage (new_events state0 (snd (run world0 ctx_build_only state0)))"
    "\<not> list_ex is_wait (new_events state0 (snd (run world0 ctx_build_only state0)))"
    using t1 b by blast+
  have r2: "run world_command ctx_detach state0
       = (Return None,
          snd (createRelease world_command ctx_detach (Some config0) (Some image0)
                 (snd (determineImage world_command ctx_detach (Some config0) state0))))"
    using t2 d nb a2 i2' c2' by blast
  have n2: "\<not> list_ex is_wait (new_events state0 (snd (run world_command ctx_detach state0)))"
    using t2 d by blast
  show ?thesis using b a1 i1 r1 n1 d nb a2 i2 c2 r2 n2 by blast
qed


theorem dispatch_on_strategy_witness:
  "fst (before_dispatch world_watch_fails ctx0 state0) = Inr release0
   \<and> rel_DeploymentStrategy release0 = ''CANARY''
   \<and> fst (run world_watch_fails ctx0 state0) = Return (Some (Foreign ''deployment failed''))
   \<and> filter is_WatchDeployment (new_events state0 (snd (run world_watch_fails ctx0 state0)))
       = [EvWatchDeployment ''eval1'']
   \<and> fst (before_dispatch world_command ctx0 state0) = Inr release_immediate
   \<and> rel_DeploymentStrategy release_immediate = ''IMMEDIATE''
   \<and> run world_command ctx0 state0 = (Return None, snd (before_dispatch world_command ctx0 state0))
   \<and> filter is_WatchDeployment (new_events state0 (snd (run world_command ctx0 state0))) = []"
proof -
  have b1: "fst (before_dispatch world_watch_fails ctx0 state0) = Inr release0"
    by (simp add: before_dispatch_def determineAppConfig_def createRelease_def Let_def
        docker_defs input_defs world_watch_fails_def image0_def)
  have s1: "rel_DeploymentStrategy release0 = ''CANARY''" by (simp add: release0_def)
  have b2: "fst (before_dispatch world_command ctx0 state0) = Inr release_immediate"
    by (simp add: before_dispatch_def determineAppConfig_def createRelease_def Let_def
        docker_defs input_defs world_command_def image0_def)
  have s2: "rel_DeploymentStrategy release_immediate = ''IMMEDIATE''"
    by (simp add: release_immediate_def)
  note t1 = dispatch_on_strategy[where w = world_watch_fails and c = ctx0 and s = state0
      and release = release0 and ?s1.0 = "snd (before_dispatch world_watch_fails ctx0 state0)"]
  note t2 = dispatch_on_strategy[where w = world_command and c = ctx0 and s = state0
      and release = release_immediate
      and ?s1.0 = "snd (before_dispatch world_command ctx0 state0)"]
  have c1: "run world_watch_fails ctx0 state0
          = (if rel_DeploymentStrategy release0 = ''IMMEDIATE''
             then (Return None, snd (before_dispatch world_watch_fails ctx0 state0))
             else (Return (WatchDeployment world_watch_fails (rel_EvaluationID release0)),
                   emit (EvWatchDeployment (rel_EvaluationID release0))
                     (snd (before_dispatch world_watch_fails ctx0 state0))))"
    and d1: "filter is_WatchDeployment (new_events state0 (snd (run world_watch_fails ctx0 state0)))
          = (if rel_DeploymentStrategy release0 = ''IMMEDIATE'' then []
             else [EvWatchDeployment (rel_EvaluationID release0)])"
    using t1 pair_of_fst[OF b1] by blast+
  have w1: "WatchDeployment world_watch_fails (rel_EvaluationID release0)
              = Some (Foreign ''deployment failed'')"
    by (simp add: world_watch_fails_def)
  have r1: "fst (run world_watch_fails ctx0 state0) = Return (Some (Foreign ''deployment failed''))"
    unfolding c1 w1 s1 by simp
  have f1: "filter is_WatchDeployment (new_events state0 (snd (run world_watch_fails ctx0 state0)))
       = [EvWatchDeployment ''eval1'']"
    unfolding d1 s1 by (simp add: release0_def)
  have c2: "run world_command ctx0 state0
          = (if rel_DeploymentStrategy release_immediate = ''IMMEDIATE''
             then (Return None, snd (before_dispatch world_command ctx0 state0))
             else (Return (WatchDeployment world_command (rel_EvaluationID release_immediate)),
                   emit (EvWatchDeployment (rel_EvaluationID release_immediate))
                     (snd (before_dispatch world_command ctx0 state0))))"
    and d2: "filter is_WatchDeployment (new_events state0 (snd (run world_command ctx0 state0)))
          = (if rel_DeploymentStrategy release_immediate = ''IMMEDIATE'' then []
             else [EvWatchDeployment (rel_EvaluationID release_immediate)])"
    using t2 pair_of_fst[OF b2] by blast+
  have r2: "run world_command ctx0 state0
       = (Return None, snd (before_dispatch world_command ctx0 state0))"
    unfolding c2 s2 by simp
  have f2: "filter is_WatchDeployment (new_events state0 (snd (run world_command ctx0 state0))) = []"
    unfolding d2 s2 by simp
  show ?thesis using b1 s1 r1 f1 b2 s2 r2 f2 by blast
qed

end
